theory Spec2Isabelle
  imports Main "HOL-Library.Char_ord" "HOL-Library.List_Lexorder"
begin

section \<open>Python values and exceptions\<close>

text \<open>
  The exceptions the two translators can raise. \<open>DeeplTranslateException\<close> carries the
  status code it was raised with (\<open>raise DeeplTranslateException(5002)\<close>); the other
  constructors are Python's built-in exceptions, and \<open>TransportError\<close> and
  \<open>JSONDecodeError\<close> stand for whatever the HTTP session or the JSON parser raises.
  A Python \<open>str\<close> is a \<open>string\<close>: one \<open>char\<close> per code point below 256.
\<close>

datatype json =
    JNull
  | JBool bool
  | JNum int
  | JStr string
  | JArr "json list"
  | JObj "(string \<times> json) list"

datatype error =
    DeeplTranslateException json
  | AttributeError
  | KeyError
  | IndexError
  | TypeError
  | TransportError
  | JSONDecodeError
  | FileError

text \<open>\<open>e >>= f\<close> for results: the first exception ends the computation.\<close>

definition and_then :: "error + 'a \<Rightarrow> ('a \<Rightarrow> error + 'b) \<Rightarrow> error + 'b" where
  "and_then r f = (case r of Inl e \<Rightarrow> Inl e | Inr x \<Rightarrow> f x)"

text \<open>\<open>xs[i]\<close> on a Python list: negative indices count from the end.\<close>

definition list_getitem :: "'a list \<Rightarrow> int \<Rightarrow> error + 'a" where
  "list_getitem xs i =
     (if 0 \<le> i \<and> i < int (length xs) then Inr (xs ! nat i)
      else if i < 0 \<and> - int (length xs) \<le> i then Inr (xs ! nat (int (length xs) + i))
      else Inl IndexError)"

text \<open>\<open>v[key]\<close> with a string key, on a value parsed from JSON.\<close>

fun getitem_key :: "json \<Rightarrow> string \<Rightarrow> error + json" where
  "getitem_key (JObj kvs) k = (case map_of kvs k of None \<Rightarrow> Inl KeyError | Some v \<Rightarrow> Inr v)"
| "getitem_key _ k = Inl TypeError"

text \<open>\<open>v[i]\<close> with an integer index, on a value parsed from JSON.\<close>

fun getitem_int :: "json \<Rightarrow> int \<Rightarrow> error + json" where
  "getitem_int (JArr xs) i = list_getitem xs i"
| "getitem_int (JStr s) i = and_then (list_getitem s i) (\<lambda>c. Inr (JStr [c]))"
| "getitem_int (JObj kvs) i = Inl KeyError"
| "getitem_int _ i = Inl TypeError"

text \<open>Python's truth value of a parsed JSON value (\<open>if v\<close>).\<close>

fun truthy :: "json \<Rightarrow> bool" where
  "truthy JNull = False"
| "truthy (JBool b) = b"
| "truthy (JNum n) = (n \<noteq> 0)"
| "truthy (JStr s) = (s \<noteq> [])"
| "truthy (JArr xs) = (xs \<noteq> [])"
| "truthy (JObj kvs) = (kvs \<noteq> [])"

section \<open>Strings\<close>

text \<open>\<open>w in s\<close> on two strings: \<open>w\<close> occurs in \<open>s\<close> as a substring.\<close>

fun str_in :: "string \<Rightarrow> string \<Rightarrow> bool" where
  "str_in w [] = (w = [])"
| "str_in w (c # cs) = (take (length w) (c # cs) = w \<or> str_in w cs)"

text \<open>\<open>s.upper()\<close>, on the ASCII letters (the language codes are ASCII).\<close>

definition upper_char :: "char \<Rightarrow> char" where
  "upper_char c =
     (let n = (of_char c :: nat)
      in if 97 \<le> n \<and> n \<le> 122 then char_of (n - 32) else c)"

definition upper :: "string \<Rightarrow> string" where
  "upper s = map upper_char s"

text \<open>\<open>s.count("i")\<close>: the occurrences of the one-character string.\<close>

definition count_i :: "string \<Rightarrow> nat" where
  "count_i s = length (filter (\<lambda>c. c = CHR ''i'') s)"

text \<open>\<open>" ".join(parts)\<close>.\<close>

fun join_space :: "string list \<Rightarrow> string" where
  "join_space [] = []"
| "join_space [s] = s"
| "join_space (s # t # ts) = s @ '' '' @ join_space (t # ts)"

text \<open>
  \<open>s.replace(old, new)\<close> for a non-empty \<open>old\<close>: the occurrences of \<open>old\<close> are replaced
  from left to right, without overlap.
\<close>

function replace :: "string \<Rightarrow> string \<Rightarrow> string \<Rightarrow> string" where
  "replace old new [] = []"
| "replace old new (c # cs) =
     (if old \<noteq> [] \<and> take (length old) (c # cs) = old
      then new @ replace old new (drop (length old) (c # cs))
      else c # replace old new cs)"
  by pat_completeness auto
termination
  by (relation "measure (\<lambda>(old, new, s). length s)") auto

text \<open>\<open>s.strip()\<close>: the white space of Python below code point 256, taken off both ends.\<close>

definition is_space :: "char \<Rightarrow> bool" where
  "is_space c = ((of_char c :: nat) \<in> {9, 10, 11, 12, 13, 28, 29, 30, 31, 32, 133, 160})"

definition strip :: "string \<Rightarrow> string" where
  "strip s = rev (dropWhile is_space (rev (dropWhile is_space s)))"

section \<open>The sentence-splitting pattern\<close>

text \<open>
  \<open>SENTENCES_SPLITTING_REGEX = compile('(?<=[.!:?]) +')\<close> and its \<open>split\<close>: a separator is
  a maximal run of spaces whose first space follows one of \<open>. ! : ?\<close>. \<open>prev\<close> is the
  character before the position read, \<open>cur\<close> the piece collected since the last
  separator.
\<close>

definition is_sentence_end :: "char option \<Rightarrow> bool" where
  "is_sentence_end p = (p \<in> {Some CHR ''.'', Some CHR ''!'', Some CHR '':'', Some CHR ''?''})"

function regex_split_from :: "char option \<Rightarrow> string \<Rightarrow> string \<Rightarrow> string list" where
  "regex_split_from prev cur [] = [cur]"
| "regex_split_from prev cur (c # cs) =
     (if c = CHR '' '' \<and> is_sentence_end prev
      then cur # regex_split_from (Some CHR '' '') [] (dropWhile (\<lambda>x. x = CHR '' '') cs)
      else regex_split_from (Some c) (cur @ [c]) cs)"
  by pat_completeness auto
termination
  by (relation "measure (\<lambda>(prev, cur, s). length s)")
     (auto simp: le_imp_less_Suc length_dropWhile_le)

definition SENTENCES_SPLITTING_REGEX_split :: "string \<Rightarrow> string list" where
  "SENTENCES_SPLITTING_REGEX_split s = regex_split_from None [] s"

section \<open>The job builder\<close>

text \<open>
  One job of \<open>_build_jobs\<close>: the dictionary with the keys \<open>kind\<close>, \<open>preferred_num_beams\<close>,
  \<open>raw_en_context_after\<close>, \<open>raw_en_context_before\<close>, \<open>sentences\<close> (one entry with the
  sentence as its text, id 0 and an empty prefix) and, when a quality is given,
  \<open>quality\<close>. The type of a sentence is a parameter: the builder never looks into one.
\<close>

record 'a sentence_entry =
  entry_text :: 'a
  entry_id :: int
  entry_prefix :: string

record 'a job =
  kind :: string
  preferred_num_beams :: int
  raw_en_context_after :: "'a list"
  raw_en_context_before :: "'a list"
  job_sentences :: "'a sentence_entry list"
  quality :: "string option"

definition make_job :: "'a list \<Rightarrow> 'a list \<Rightarrow> 'a \<Rightarrow> string \<Rightarrow> 'a job" where
  "make_job ctx_after ctx_before sentence q =
     \<lparr> kind = ''default'', preferred_num_beams = 4,
       raw_en_context_after = ctx_after, raw_en_context_before = ctx_before,
       job_sentences = [\<lparr> entry_text = sentence, entry_id = 0, entry_prefix = [] \<rparr>],
       quality = (if q \<noteq> [] then Some q else None) \<rparr>"

text \<open>
  The body of the loop of \<open>_build_jobs\<close> at \<open>(index, sentence)\<close>: from the list
  \<open>before\<close> left by the previous round it gives the new \<open>before\<close> and \<open>after\<close>
  (\<open>before.pop(0)\<close> is \<open>tl\<close>, \<open>before.extend([x])\<close> appends \<open>x\<close>).
  At index 0 the \<open>IndexError\<close> of \<open>sentences[index + 1]\<close> is caught.
\<close>

definition context_step :: "'a list \<Rightarrow> nat \<Rightarrow> 'a list \<Rightarrow> error + ('a list \<times> 'a list)" where
  "context_step sentences index ctx_before =
     (if index = 0 then
        (case list_getitem sentences (int index + 1) of
           Inr s \<Rightarrow> Inr ([], [s])
         | Inl IndexError \<Rightarrow> Inr ([], [])
         | Inl e \<Rightarrow> Inl e)
      else
        and_then (list_getitem sentences (int index - 1)) (\<lambda>prev.
          let popped = (if length ctx_before > 4 then tl ctx_before else ctx_before);
              ctx_before' = popped @ [prev]
          in if int index > int (length sentences) - 2 then Inr (ctx_before', [])
             else and_then (list_getitem sentences (int index + 1)) (\<lambda>s. Inr (ctx_before', [s]))))"

fun build_jobs_loop ::
  "'a list \<Rightarrow> string \<Rightarrow> (nat \<times> 'a) list \<Rightarrow> 'a list \<Rightarrow> 'a job list \<Rightarrow> error + 'a job list" where
  "build_jobs_loop sentences q [] ctx_before jobs = Inr jobs"
| "build_jobs_loop sentences q ((index, sentence) # rest) ctx_before jobs =
     (case context_step sentences index ctx_before of
        Inl e \<Rightarrow> Inl e
      | Inr (ctx_before', ctx_after) \<Rightarrow>
          build_jobs_loop sentences q rest ctx_before'
            (jobs @ [make_job ctx_after ctx_before' sentence q]))"

definition build_jobs :: "'a list \<Rightarrow> string \<Rightarrow> error + 'a job list" where
  "build_jobs sentences q =
     build_jobs_loop sentences q (zip [0 ..< length sentences] sentences) [] []"

section \<open>The JSON-RPC session\<close>

text \<open>
  The parameters of the two remote methods. \<open>lang_params\<close> is the dictionary under
  \<open>"lang"\<close> of a job batch: a key that is not set is \<open>None\<close>. Its constant entry
  \<open>"preference": {"weight": {}, "default": "default"}\<close> is left out.
  \<open>commonJobParams\<close> is absent (\<open>None\<close>) in the batch of \<open>_language\<close>.
\<close>

record lang_params =
  source_lang_computed :: "json option"
  target_lang :: string
  source_lang_user_selected :: "string option"
  user_preferred_langs :: "json list option"

record common_job_params =
  browserType :: int
  formality :: "string option"
  mode :: string
  termbase_dictionary :: string

record jobs_params =
  jobs :: "json job list"
  lang :: lang_params
  priority :: int
  commonJobParams :: "common_job_params option"
  timestamp :: int

datatype rpc_params =
    SplitParams "string list" string "string list"
  | JobsParams jobs_params

text \<open>
  \<open>transport\<close> is \<open>self.session.post(...)\<close> followed by \<open>request.json()\<close>: for a method
  and its parameters, the status code and the parsed body, or the exception either of
  them raises. The \<open>id\<close> counter of \<open>dump\<close> and the pause of five seconds between two
  requests are left out: they change the \<open>id\<close> of the envelope and the time of the
  request only.
\<close>

type_synonym transport = "string \<Rightarrow> rpc_params \<Rightarrow> error + (int \<times> json)"

definition send_jsonrpc :: "transport \<Rightarrow> string \<Rightarrow> rpc_params \<Rightarrow> error + json" where
  "send_jsonrpc post method params =
     and_then (post method params) (\<lambda>(status_code, response).
       if status_code = 200 then getitem_key response ''result''
       else and_then (getitem_key response ''error'') (\<lambda>err.
            and_then (getitem_key err ''code'') (\<lambda>code.
              Inl (DeeplTranslateException code))))"

section \<open>The sentence splitter\<close>

text \<open>
  \<open>_split_into_sentences\<close>. The statement under \<open>if REGEX_SPLIT:\<close> is an expression
  statement: the pair is computed and dropped (\<open>dropped\<close> below), and the function goes
  on to the remote call. \<open>list(set(...))\<close> is \<open>remdups\<close>: Python does not fix the order
  of the list, and nothing here reads it.
\<close>

definition split_into_sentences ::
  "transport \<Rightarrow> string list \<Rightarrow> string \<Rightarrow> string \<Rightarrow> string \<Rightarrow> error + (json \<times> json)" where
  "split_into_sentences post preferred_langs txt destination_language source_language =
     (let REGEX_SPLIT = True;
          dropped = (if REGEX_SPLIT then Some (SENTENCES_SPLITTING_REGEX_split txt, JNull) else None);
          params = SplitParams [strip txt] source_language
                     (remdups (preferred_langs @ [destination_language]))
      in and_then (send_jsonrpc post ''LMT_split_into_sentences'' params) (\<lambda>resp.
         and_then (getitem_key resp ''splitted_texts'') (\<lambda>texts.
         and_then (getitem_int texts 0) (\<lambda>first.
         and_then (getitem_key resp ''lang'') (\<lambda>computed. Inr (first, computed))))))"

section \<open>The glossary\<close>

text \<open>
  Modelled from the spec: the class \<open>BaseTranslator.FormatedGlossary\<close> is declared in
  \<open>translatepy/translators/base.py\<close>, which is not among the sources. It is
  taken as the record of the three values \<open>load_glossary_from_csv\<close> builds it from and
  \<open>_translate\<close> reads from it: the \<open>dataframe\<close>, the \<open>source_language\<close> and the
  \<open>target_language\<close> (the spec: "a \<open>{ source_language, target_language, rows }\<close>
  structure").

  A pandas data frame is the list of its columns, each a name and its cells from the
  first row to the last; a cell is a string (the spec: a glossary entry is a source term
  and a target term, both strings). \<open>frame[name]\<close> raises \<open>KeyError\<close> for a name that
  is no column.
\<close>

type_synonym dataframe = "(string \<times> string list) list"

record FormatedGlossary =
  glossary_dataframe :: dataframe
  glossary_source_language :: string
  glossary_target_language :: string

definition frame_column :: "dataframe \<Rightarrow> string \<Rightarrow> error + string list" where
  "frame_column frame name = (case map_of frame name of None \<Rightarrow> Inl KeyError | Some cells \<Rightarrow> Inr cells)"

text \<open>
  The argument \<open>dictionary\<close> of \<open>_translate\<close>: \<open>None\<close> (its default), a string, or a
  glossary.
\<close>

datatype dictionary = NoDictionary | StrDictionary string | Glossary FormatedGlossary

datatype warning = QuoteWarning | LimitWarning | DuplicateWarning

definition error_codes :: "(int \<times> string) list" where
  "error_codes =
     [(-32600, ''Invalid Request: Invalid commonJobParams.''),
      (1042911, ''Too many requests.''),
      (1042912, ''Too many requests.''),
      (1156049, ''Invalid Request''),
      (5000, ''Unsported language for glossary.''),
      (5001, ''Invalid CSV file: Same source and target language.''),
      (5002, ''Invalid CSV file: EN can only be combined with FR, DE, ES, IT, PL, JA, NL.''),
      (5003, ''Invalid CSV file: FR can only be combined with EN, DE, ES, IT, PL, JA, NL.''),
      (5004, ''Invalid CSV file: DE can only be combined with EN, FR, ES, IT, PL, JA, NL.''),
      (5005, ''Invalid CSV file: ES can only be combined with EN, FR, DE, IT, PL, JA, NL.''),
      (5006, ''Invalid CSV file: IT can only be combined with EN, FR, DE, ES, PL, JA, NL.''),
      (5007, ''Invalid CSV file: PL can only be combined with EN, FR, DE, ES, IT, JA, NL.''),
      (5008, ''Invalid CSV file: JA can only be combined with EN, FR, DE, ES, IT, PL, NL.''),
      (5009, ''Invalid CSV file: NL can only be combined with EN, FR, DE, ES, IT, PL, JA.''),
      (5010, ''Invalid CSV file: Error in the header (or in its declaration in the '' @ [CHR 0x27] @
             ''load_glossary_from_csv'' @ [CHR 0x27] @ '' function)''),
      (5011, ''Syntax Error: The combination in the glossary does not correspond to the combination declared in the translate function.'')]"

definition glossary_supported_languages :: "string set" where
  "glossary_supported_languages = {''DE'', ''EN'', ''ES'', ''FR'', ''JA'', ''IT'', ''PL'', ''NL''}"

text \<open>
  \<open>csv.sort_values(by=[source_language], ...)\<close> and \<open>csv.drop_duplicates(subset=
  [source_language], keep='last')\<close>, column by column: every column is reordered by
  the keys of the source column. pandas does not fix the order of rows with equal keys;
  here they keep the order of the file.
\<close>

definition sort_column :: "string list \<Rightarrow> string list \<Rightarrow> string list" where
  "sort_column keys cells = map snd (sort_key fst (zip keys cells))"

fun keep_last :: "(string \<times> string) list \<Rightarrow> (string \<times> string) list" where
  "keep_last [] = []"
| "keep_last (p # ps) = (if fst p \<in> fst ` set ps then keep_last ps else p # keep_last ps)"

definition drop_duplicates_column :: "string list \<Rightarrow> string list \<Rightarrow> string list" where
  "drop_duplicates_column keys cells = map snd (keep_last (zip keys cells))"

text \<open>
  \<open>load_glossary_from_csv\<close>. \<open>read_csv\<close> is \<open>pd.read_csv\<close>: the frame of the file, or the
  exception of a file that cannot be read. The result carries the warnings given.
\<close>

definition load_glossary_from_csv ::
  "(string \<Rightarrow> string \<Rightarrow> string \<Rightarrow> error + dataframe) \<Rightarrow> string \<Rightarrow> string \<Rightarrow> string \<Rightarrow>
   string \<Rightarrow> string \<Rightarrow> error + (FormatedGlossary \<times> warning list)" where
  "load_glossary_from_csv read_csv file_path separator encoding source_language0 target_language0 =
     (let source_language = upper source_language0;
          target_language = upper target_language0
      in
      if source_language \<notin> glossary_supported_languages \<or> target_language \<notin> glossary_supported_languages
      then Inl (DeeplTranslateException (JNum 5000))
      else if source_language = target_language
      then Inl (DeeplTranslateException (JNum 5001))
      else and_then (read_csv file_path separator encoding) (\<lambda>csv.
      if source_language = ''EN'' \<and> target_language \<notin> set [''FR'', ''DE'', ''ES'', ''IT'', ''PL'', ''JA'', ''NL'']
      then Inl (DeeplTranslateException (JNum 5002))
      else if source_language = ''FR'' \<and> target_language \<notin> set [''EN'', ''DE'', ''ES'', ''IT'', ''PL'', ''JA'', ''NL'']
      then Inl (DeeplTranslateException (JNum 5003))
      else if source_language = ''DE'' \<and> target_language \<notin> set [''EN'', ''FR'', ''ES'', ''IT'', ''PL'', ''JA'', ''NL'']
      then Inl (DeeplTranslateException (JNum 5004))
      else if source_language = ''ES'' \<and> target_language \<notin> set [''EN'', ''FR'', ''DE'', ''IT'', ''PL'', ''JA'', ''NL'']
      then Inl (DeeplTranslateException (JNum 5005))
      else if source_language = ''IT'' \<and> target_language \<notin> set [''EN'', ''FR'', ''DE'', ''ES'', ''PL'', ''JA'', ''NL'']
      then Inl (DeeplTranslateException (JNum 5006))
      else if source_language = ''PL'' \<and> target_language \<notin> set [''EN'', ''FR'', ''DE'', ''ES'', ''IT'', ''JA'', ''NL'']
      then Inl (DeeplTranslateException (JNum 5007))
      else if source_language = ''JA'' \<and> target_language \<notin> set [''EN'', ''FR'', ''DE'', ''ES'', ''IT'', ''PL'', ''NL'']
      then Inl (DeeplTranslateException (JNum 5008))
      else if source_language = ''NL'' \<and> target_language \<notin> set [''EN'', ''FR'', ''DE'', ''ES'', ''IT'', ''PL'', ''JA'']
      then Inl (DeeplTranslateException (JNum 5009))
      else
        (let renamed = map (\<lambda>(name, cells). (upper name, cells)) csv
         in case frame_column renamed source_language of
              Inl KeyError \<Rightarrow> Inl (DeeplTranslateException (JNum 5010))
            | Inl e \<Rightarrow> Inl e
            | Inr keys \<Rightarrow>
                (let sorted_frame = map (\<lambda>(name, cells). (name, sort_column keys cells)) renamed;
                     sorted_keys = sort_column keys keys
                 in if \<not> distinct sorted_keys
                    then Inr (\<lparr> glossary_dataframe =
                                  map (\<lambda>(name, cells). (name, drop_duplicates_column sorted_keys cells))
                                    sorted_frame,
                                glossary_source_language = source_language,
                                glossary_target_language = target_language \<rparr>,
                              [DuplicateWarning])
                    else Inr (\<lparr> glossary_dataframe = sorted_frame,
                                glossary_source_language = source_language,
                                glossary_target_language = target_language \<rparr>, [])))))"

section \<open>The glossary matcher of \<open>_translate\<close>\<close>

definition TAB :: char where "TAB = CHR 0x09"
definition NEWLINE :: char where "NEWLINE = CHR 0x0A"
definition QUOTE :: char where "QUOTE = CHR 0x22"

text \<open>
  \<open>target_word.values[0]\<close>: \<open>index\<close> holds the rows whose source cell equals \<open>word\<close>,
  and \<open>target_word\<close> the target cells of these rows; the first of them is read.
\<close>

definition target_of :: "dataframe \<Rightarrow> string \<Rightarrow> string \<Rightarrow> string \<Rightarrow> error + string" where
  "target_of frame source_column target_column word =
     and_then (frame_column frame source_column) (\<lambda>sources.
     and_then (frame_column frame target_column) (\<lambda>targets.
       case map snd (filter (\<lambda>(s, t). s = word) (zip sources targets)) of
         [] \<Rightarrow> Inl IndexError
       | target_word # _ \<Rightarrow> Inr target_word))"

text \<open>
  The body of \<open>for word in dictionary.dataframe[source_language.upper()]\<close>, on the
  state \<open>(limit, formated_string)\<close> and the warnings given so far.
\<close>

definition glossary_word ::
  "FormatedGlossary \<Rightarrow> string \<Rightarrow> string \<Rightarrow> string \<Rightarrow> int \<times> string \<times> warning list \<Rightarrow>
   error + (int \<times> string \<times> warning list)" where
  "glossary_word g source_language txt word st =
     (case st of (limit, formated_string, warns) \<Rightarrow>
        and_then
          (if str_in word txt \<and> limit > 0 then
             and_then (target_of (glossary_dataframe g) (upper source_language)
                         (upper (glossary_target_language g)) word) (\<lambda>target_word.
               if QUOTE \<notin> set target_word \<and> QUOTE \<notin> set word
               then Inr (limit - 1,
                         formated_string @ word @ [TAB] @ target_word @ [NEWLINE], warns)
               else Inr (limit, formated_string, warns @ [QuoteWarning]))
           else Inr (limit, formated_string, warns))
          (\<lambda>(limit, formated_string, warns).
             if str_in word txt \<and> limit = 0
             then Inr (limit, formated_string, warns @ [LimitWarning])
             else Inr (limit, formated_string, warns)))"

fun glossary_loop ::
  "FormatedGlossary \<Rightarrow> string \<Rightarrow> string \<Rightarrow> string list \<Rightarrow> int \<times> string \<times> warning list \<Rightarrow>
   error + (int \<times> string \<times> warning list)" where
  "glossary_loop g source_language txt [] st = Inr st"
| "glossary_loop g source_language txt (word # rest) st =
     and_then (glossary_word g source_language txt word st)
       (glossary_loop g source_language txt rest)"

text \<open>
  Lines 204 to 228 of \<open>_translate\<close>: the string sent as the termbase, and the warnings.
  \<open>dictionary != ""\<close> holds for \<open>None\<close> and for a glossary; reading
  \<open>dictionary.source_language\<close> of \<open>None\<close> or of a string raises \<open>AttributeError\<close>.
\<close>

definition build_termbase ::
  "string \<Rightarrow> string \<Rightarrow> string \<Rightarrow> dictionary \<Rightarrow> error + (string \<times> warning list)" where
  "build_termbase txt destination_language source_language dictionary =
     (if dictionary \<noteq> StrDictionary [] then
        (case dictionary of
           Glossary g \<Rightarrow>
             if \<not> str_in (upper source_language) (glossary_source_language g)
                \<or> \<not> str_in (upper destination_language) (glossary_target_language g)
             then Inl (DeeplTranslateException (JNum 5011))
             else
               and_then (frame_column (glossary_dataframe g) (upper source_language)) (\<lambda>sources.
               and_then (glossary_loop g source_language txt sources (10, [], []))
                 (\<lambda>(limit, formated_string, warns).
                    if formated_string \<noteq> [] then
                      (let replaced = replace [QUOTE, TAB, QUOTE, NEWLINE] [] formated_string
                       in and_then (list_getitem replaced (- 1)) (\<lambda>final.
                            if final = NEWLINE then Inr (butlast replaced, warns)
                            else Inr (replaced, warns)))
                    else Inr (formated_string, warns)))
         | _ \<Rightarrow> Inl AttributeError)
      else Inr ([], []))"

section \<open>The translation and the language detection\<close>

text \<open>
  What \<open>_build_jobs\<close> and the count of \<open>"i"\<close> walk over, for the value the splitter
  returned: the elements of a list, the characters of a string. A dictionary with an
  entry raises \<open>KeyError\<close> at \<open>sentences[index + 1]\<close> of the first round (only
  \<open>IndexError\<close> is caught), and \<open>None\<close>, a truth value or a number is not iterable.
\<close>

fun sentence_list :: "json \<Rightarrow> error + json list" where
  "sentence_list (JArr xs) = Inr xs"
| "sentence_list (JStr s) = Inr (map (\<lambda>c. JStr [c]) s)"
| "sentence_list (JObj []) = Inr []"
| "sentence_list (JObj (kv # kvs)) = Inl KeyError"
| "sentence_list _ = Inl TypeError"

text \<open>\<open>sentence.count("i")\<close>: on a string its characters \<open>i\<close>, on a list its elements \<open>"i"\<close>.\<close>

fun count_of :: "json \<Rightarrow> error + int" where
  "count_of (JStr s) = Inr (int (count_i s))"
| "count_of (JArr xs) = Inr (int (length (filter (\<lambda>x. x = JStr ''i'') xs)))"
| "count_of _ = Inl AttributeError"

fun sum_counts :: "json list \<Rightarrow> error + int" where
  "sum_counts [] = Inr 0"
| "sum_counts (s # ss) =
     and_then (count_of s) (\<lambda>c. and_then (sum_counts ss) (\<lambda>total. Inr (c + total)))"

text \<open>
  \<open>_translate\<close> up to the parameters of the job batch (lines 204 to 263).
  \<open>now\<close> is \<open>int(time() * 10)\<close>, the clock read by the call.
\<close>

definition translate_request ::
  "transport \<Rightarrow> string list \<Rightarrow> int \<Rightarrow> string \<Rightarrow> string \<Rightarrow> string \<Rightarrow> string option \<Rightarrow> dictionary \<Rightarrow>
   error + jobs_params" where
  "translate_request post preferred_langs now txt destination_language source_language
     formality_arg dictionary =
     and_then (build_termbase txt destination_language source_language dictionary)
       (\<lambda>(formated_string, warns).
     and_then (split_into_sentences post preferred_langs txt destination_language source_language)
       (\<lambda>(sentences, computed_lang).
     and_then (sentence_list sentences) (\<lambda>ss.
     and_then (build_jobs ss []) (\<lambda>built.
     and_then (sum_counts ss) (\<lambda>total.
       let i_count = 1 + total;
           ts = now * 100 + 1000;
           params =
             \<lparr> jobs = built,
               lang = \<lparr> source_lang_computed = Some (JStr source_language),
                        target_lang = destination_language,
                        source_lang_user_selected = None,
                        user_preferred_langs = None \<rparr>,
               priority = 1,
               commonJobParams =
                 Some \<lparr> browserType = 1, formality = formality_arg, mode = ''translate'',
                        termbase_dictionary = formated_string \<rparr>,
               timestamp = ts + (i_count - ts mod i_count) \<rparr>
       in if source_language = ''auto'' then
            (let lang1 = (lang params)\<lparr> source_lang_computed := Some computed_lang \<rparr>
             in case user_preferred_langs lang1 of
                  None \<Rightarrow> Inl KeyError
                | Some langs \<Rightarrow>
                    Inr (params\<lparr> lang := lang1\<lparr> user_preferred_langs := Some (langs @ [computed_lang]) \<rparr> \<rparr>))
          else Inr (params\<lparr> lang := (lang params)\<lparr> source_lang_user_selected := Some source_language \<rparr> \<rparr>))))))"

text \<open>\<open>obj["beams"][0]["sentences"][0]["text"]\<close>.\<close>

definition top_text :: "json \<Rightarrow> error + json" where
  "top_text obj =
     and_then (getitem_key obj ''beams'') (\<lambda>beams.
     and_then (getitem_int beams 0) (\<lambda>beam.
     and_then (getitem_key beam ''sentences'') (\<lambda>sents.
     and_then (getitem_int sents 0) (\<lambda>sent. getitem_key sent ''text''))))"

text \<open>\<open>for obj in v\<close> on a parsed value: a dictionary gives its keys.\<close>

fun json_iter :: "json \<Rightarrow> error + json list" where
  "json_iter (JArr xs) = Inr xs"
| "json_iter (JStr s) = Inr (map (\<lambda>c. JStr [c]) s)"
| "json_iter (JObj kvs) = Inr (map (\<lambda>kv. JStr (fst kv)) kvs)"
| "json_iter _ = Inl TypeError"

fun collect :: "('a \<Rightarrow> error + 'b) \<Rightarrow> 'a list \<Rightarrow> error + 'b list" where
  "collect f [] = Inr []"
| "collect f (x # xs) = and_then (f x) (\<lambda>y. and_then (collect f xs) (\<lambda>ys. Inr (y # ys)))"

text \<open>\<open>" ".join\<close> raises \<open>TypeError\<close> for an item that is no string.\<close>

fun as_string :: "json \<Rightarrow> error + string" where
  "as_string (JStr s) = Inr s"
| "as_string _ = Inl TypeError"

text \<open>
  Lines 267 to 274: the pair \<open>_translate\<close> returns for the result of the job batch,
  \<open>None\<close> when the result is \<open>None\<close>.
\<close>

definition translate_result :: "json \<Rightarrow> string \<Rightarrow> error + (json \<times> string) option" where
  "translate_result results source_language =
     (let detected_language =
            (case getitem_key results ''source_lang'' of
               Inr v \<Rightarrow> v
             | Inl e \<Rightarrow> JStr source_language)
      in if results \<noteq> JNull then
           and_then (getitem_key results ''translations'') (\<lambda>translations.
           and_then (json_iter translations) (\<lambda>objs.
           and_then (collect top_text objs) (\<lambda>texts.
           and_then (collect as_string (filter truthy texts)) (\<lambda>parts.
             Inr (Some (detected_language, join_space parts))))))
         else Inr None)"

definition DeeplTranslate_translate ::
  "transport \<Rightarrow> string list \<Rightarrow> int \<Rightarrow> string \<Rightarrow> string \<Rightarrow> string \<Rightarrow> string option \<Rightarrow> dictionary \<Rightarrow>
   error + (json \<times> string) option" where
  "DeeplTranslate_translate post preferred_langs now txt destination_language source_language
     formality_arg dictionary =
     and_then (translate_request post preferred_langs now txt destination_language
                 source_language formality_arg dictionary) (\<lambda>params.
     and_then (send_jsonrpc post ''LMT_handle_jobs'' (JobsParams params)) (\<lambda>results.
       translate_result results source_language))"

text \<open>\<open>_language\<close> up to the parameters of its job batch (lines 277 to 305).\<close>

definition language_request ::
  "transport \<Rightarrow> string list \<Rightarrow> int \<Rightarrow> string \<Rightarrow> error + jobs_params" where
  "language_request post preferred_langs now txt =
     and_then (split_into_sentences post preferred_langs txt ''EN'' ''AUTO'')
       (\<lambda>(sentences, computed_lang).
     and_then (sentence_list sentences) (\<lambda>ss.
     and_then (build_jobs ss []) (\<lambda>built.
     and_then (sum_counts ss) (\<lambda>total.
       let i_count = 1 + total;
           ts = now * 100 + 1000;
           params =
             \<lparr> jobs = built,
               lang = \<lparr> source_lang_computed = None,
                        target_lang = ''FR'',
                        source_lang_user_selected = None,
                        user_preferred_langs = Some [JStr ''FR''] \<rparr>,
               priority = 1,
               commonJobParams = None,
               timestamp = ts + (i_count - ts mod i_count) \<rparr>
       in if computed_lang \<noteq> JNull then
            (let lang1 = (lang params)\<lparr> source_lang_computed := Some computed_lang \<rparr>
             in case user_preferred_langs lang1 of
                  None \<Rightarrow> Inl KeyError
                | Some langs \<Rightarrow>
                    Inr (params\<lparr> lang := lang1\<lparr> user_preferred_langs := Some (langs @ [computed_lang]) \<rparr> \<rparr>))
          else Inr (params\<lparr> lang := (lang params)\<lparr> source_lang_user_selected := Some ''AUTO'' \<rparr> \<rparr>)))))"

definition DeeplTranslate_language ::
  "transport \<Rightarrow> string list \<Rightarrow> int \<Rightarrow> string \<Rightarrow> error + json option" where
  "DeeplTranslate_language post preferred_langs now txt =
     and_then (language_request post preferred_langs now txt) (\<lambda>params.
     and_then (send_jsonrpc post ''LMT_handle_jobs'' (JobsParams params)) (\<lambda>results.
       if results \<noteq> JNull
       then and_then (getitem_key results ''source_lang'') (\<lambda>v. Inr (Some v))
       else Inr None))"

section \<open>The Bing translator\<close>

text \<open>
  \<open>BingTranslate.translate\<close>. The source language is \<open>None\<close>, a string, or a
  \<open>Language\<close> (of which \<open>bing_translate\<close> is read; the class is not among the sources).
  \<open>bing_post\<close> is \<open>requests.post\<close> on the text, \<open>fromLang\<close> and \<open>to\<close>, giving the status
  code and the text of the response; \<open>loads\<close> is \<open>json.loads\<close>. The \<open>except:\<close> around
  the whole body turns every exception into the pair \<open>(None, None)\<close>.
\<close>

datatype bing_source = SourceNone | SourceStr string | SourceLanguage string

definition BingTranslate_translate ::
  "(string \<Rightarrow> string \<Rightarrow> string \<Rightarrow> error + (int \<times> string)) \<Rightarrow> (string \<Rightarrow> error + json) \<Rightarrow>
   string \<Rightarrow> string \<Rightarrow> bing_source \<Rightarrow> error + (json \<times> json)" where
  "BingTranslate_translate bing_post loads txt destination_language source_language_arg =
     (let attempt =
            (let source_language =
                   (case source_language_arg of
                      SourceNone \<Rightarrow> ''auto-detect''
                    | SourceStr s \<Rightarrow> s
                    | SourceLanguage b \<Rightarrow> b)
             in and_then (bing_post txt source_language destination_language)
                  (\<lambda>(status_code, body).
                if status_code < 400 then
                  and_then (loads body) (\<lambda>data.
                  and_then (getitem_int data 0) (\<lambda>d0.
                  and_then (getitem_key d0 ''detectedLanguage'') (\<lambda>detected.
                  and_then (getitem_key detected ''language'') (\<lambda>lng.
                  and_then (getitem_key d0 ''translations'') (\<lambda>translations.
                  and_then (getitem_int translations 0) (\<lambda>t0.
                  and_then (getitem_key t0 ''text'') (\<lambda>translated.
                    Inr (lng, translated))))))))
                else Inr (JNull, JNull)))
      in case attempt of Inl e \<Rightarrow> Inr (JNull, JNull) | Inr r \<Rightarrow> Inr r)"

section \<open>What the claims speak of\<close>

text \<open>
  The context window the specification describes for the job at index \<open>i\<close>: the five
  sentences before \<open>i\<close>, or all of them when there are fewer; and the job it describes.
\<close>

definition window :: "'a list \<Rightarrow> nat \<Rightarrow> 'a list" where
  "window ss i = drop (i - 5) (take i ss)"

definition expected_job :: "'a list \<Rightarrow> string \<Rightarrow> nat \<Rightarrow> 'a job" where
  "expected_job ss q i =
     make_job (if Suc i < length ss then [ss ! Suc i] else []) (window ss i) (ss ! i) q"

text \<open>
  A remote service for the examples: every request is answered with status 200; the
  splitting method returns three sentences and the language \<open>EN\<close>, the job batch three
  translations.
\<close>

definition translation_object :: "string \<Rightarrow> json" where
  "translation_object s =
     JObj [(''beams'', JArr [JObj [(''sentences'', JArr [JObj [(''text'', JStr s)]])]])]"

definition example_texts :: "string list" where
  "example_texts = [''Bonjour.'', ''Comment '' @ [CHR 0xE7] @ ''a va?'', ''Au revoir.'']"

definition example_post :: transport where
  "example_post method params =
     (if method = ''LMT_split_into_sentences''
      then Inr (200, JObj [(''result'',
             JObj [(''splitted_texts'',
                    JArr [JArr [JStr ''Hello.'', JStr ''How are you?'', JStr ''Bye.'']]),
                   (''lang'', JStr ''EN'')])])
      else Inr (200, JObj [(''result'',
             JObj [(''source_lang'', JStr ''EN''),
                   (''translations'', JArr (map translation_object example_texts))])]))"

text \<open>A transport on which every request fails (connection refused).\<close>

definition refused_post :: transport where
  "refused_post method params = Inl TransportError"


text \<open>A service that splits every text into \<open>Hi.\<close> and \<open>Fine.\<close> and translates nothing.\<close>

definition greeting_post :: transport where
  "greeting_post method params =
     (if method = ''LMT_split_into_sentences''
      then Inr (200, JObj [(''result'',
             JObj [(''splitted_texts'', JArr [JArr [JStr ''Hi.'', JStr ''Fine.'']]),
                   (''lang'', JStr ''EN'')])])
      else Inr (200, JObj [(''result'', JNull)]))"


text \<open>
  The pairs of the glossary the text matches, in the order of the source column: a word
  of the column that occurs in the text, with the target cell of the first row that has
  this word as its source. A pair is free of quotes when neither side contains the
  character \<open>"\<close>. \<open>render_pairs\<close> writes each pair as \<open>source TAB target NEWLINE\<close>.
\<close>

definition first_target :: "string list \<Rightarrow> string list \<Rightarrow> string \<Rightarrow> string" where
  "first_target sources targets w =
     (case map snd (filter (\<lambda>(s, t). s = w) (zip sources targets)) of [] \<Rightarrow> [] | t # _ \<Rightarrow> t)"

definition matched_pairs :: "string list \<Rightarrow> string list \<Rightarrow> string \<Rightarrow> string list \<Rightarrow> (string \<times> string) list" where
  "matched_pairs sources targets tx ws =
     map (\<lambda>w. (w, first_target sources targets w)) (filter (\<lambda>w. str_in w tx) ws)"

definition quote_free :: "string \<times> string \<Rightarrow> bool" where
  "quote_free p = (QUOTE \<notin> set (fst p) \<and> QUOTE \<notin> set (snd p))"

definition render_pairs :: "(string \<times> string) list \<Rightarrow> string" where
  "render_pairs ps = concat (map (\<lambda>(w, t). w @ [TAB] @ t @ [NEWLINE]) ps)"

text \<open>
  A glossary of fifteen rows from \<open>EN\<close> to \<open>FR\<close>. The targets of \<open>a\<close> and \<open>d\<close> are in
  quotes, and \<open>zz\<close> does not occur in the text \<open>abcdefghijklmn\<close>.
\<close>

definition example_sources :: "string list" where
  "example_sources = [''a'', ''b'', ''c'', ''d'', ''e'', ''f'', ''g'', ''h'', ''i'', ''j'', ''k'',
                      ''l'', ''m'', ''n'', ''zz'']"

definition example_targets :: "string list" where
  "example_targets = [[CHR 0x22, CHR ''A'', CHR 0x22], ''B'', ''C'', [CHR 0x22, CHR ''D'', CHR 0x22],
                      ''E'', ''F'', ''G'', ''H'', ''I'', ''J'', ''K'', ''L'', ''M'', ''N'', ''ZZ'']"

definition example_glossary :: FormatedGlossary where
  "example_glossary =
     \<lparr> glossary_dataframe = [(''EN'', example_sources), (''FR'', example_targets)],
       glossary_source_language = ''EN'',
       glossary_target_language = ''FR'' \<rparr>"


(* definitions end here; the results follow *)

section \<open>Results\<close>

lemma and_then_Inr [simp]: "and_then (Inr x) f = f x"
  by (simp add: and_then_def)

lemma and_then_Inl [simp]: "and_then (Inl e) f = Inl e"
  by (simp add: and_then_def)

lemma list_getitem_nat: "i < length xs \<Longrightarrow> list_getitem xs (int i) = Inr (xs ! i)"
  by (simp add: list_getitem_def)

lemma list_getitem_out: "length xs \<le> i \<Longrightarrow> list_getitem xs (int i) = Inl IndexError"
  by (simp add: list_getitem_def)

subsection \<open>The job builder\<close>

lemma window_step:
  assumes j: "j < length ss"
  shows "(if length (window ss j) > 4 then tl (window ss j) else window ss j) @ [ss ! j]
         = window ss (Suc j)"
proof -
  have tk: "take (Suc j) ss = take j ss @ [ss ! j]"
    using j by (simp add: take_Suc_conv_app_nth)
  show ?thesis
  proof (cases "5 \<le> j")
    case True
    have e: "Suc j - 5 = Suc (j - 5)" using True by arith
    have long: "length (window ss j) > 4" using True j by (simp add: window_def)
    have popped: "tl (window ss j) = drop (Suc j - 5) (take j ss)"
      unfolding e by (simp add: window_def tl_drop drop_Suc)
    have "window ss (Suc j) = drop (Suc j - 5) (take j ss @ [ss ! j])"
      by (simp only: window_def tk)
    also have "\<dots> = drop (Suc j - 5) (take j ss) @ [ss ! j]"
      using j by simp
    finally have "window ss (Suc j) = tl (window ss j) @ [ss ! j]"
      by (simp only: popped)
    then show ?thesis using long by simp
  next
    case False
    have short: "\<not> 4 < length (window ss j)" using False by (simp add: window_def)
    have grown: "window ss (Suc j) = window ss j @ [ss ! j]"
      using False by (simp add: window_def tk)
    show ?thesis using short grown by simp
  qed
qed

lemma context_step_Suc:
  assumes "Suc j < length ss"
  shows "context_step ss (Suc j) (window ss j) =
         Inr (window ss (Suc j), if Suc (Suc j) < length ss then [ss ! Suc (Suc j)] else [])"
proof -
  have j: "j < length ss" using assms by simp
  have g: "list_getitem ss (int (Suc j) - 1) = Inr (ss ! j)"
    using list_getitem_nat[OF j] by simp
  have h: "Suc (Suc j) < length ss \<Longrightarrow> list_getitem ss (int (Suc j) + 1) = Inr (ss ! Suc (Suc j))"
    using list_getitem_nat[of "Suc (Suc j)" ss] by (simp add: add.commute)
  have far: "int (Suc j) > int (length ss) - 2 \<longleftrightarrow> \<not> Suc (Suc j) < length ss"
    by auto
  show ?thesis
    unfolding context_step_def g far
    using h window_step[OF j] by (simp add: Let_def)
qed

lemma context_step_zero:
  "context_step ss 0 b = Inr (window ss 0, if Suc 0 < length ss then [ss ! Suc 0] else [])"
proof (cases "Suc 0 < length ss")
  case True
  then have "list_getitem ss (int 0 + 1) = Inr (ss ! Suc 0)"
    using list_getitem_nat[of "Suc 0" ss] by simp
  then show ?thesis using True by (simp add: context_step_def window_def)
next
  case False
  then have "list_getitem ss (int 0 + 1) = Inl IndexError"
    using list_getitem_out[of ss "Suc 0"] by simp
  then show ?thesis using False by (simp add: context_step_def window_def)
qed

lemma zip_upt_drop:
  "k < length ss \<Longrightarrow>
   zip [k ..< length ss] (drop k ss) = (k, ss ! k) # zip [Suc k ..< length ss] (drop (Suc k) ss)"
  by (simp add: upt_conv_Cons Cons_nth_drop_Suc[symmetric])

lemma build_jobs_loop_step:
  assumes "context_step ss k b = Inr (w, a)"
  shows "build_jobs_loop ss q ((k, s) # rest) b js
         = build_jobs_loop ss q rest w (js @ [make_job a w s q])"
  using assms by simp

lemma build_jobs_loop_from:
  "Suc j \<le> length ss \<Longrightarrow>
   build_jobs_loop ss q (zip [Suc j ..< length ss] (drop (Suc j) ss)) (window ss j) js
   = Inr (js @ map (expected_job ss q) [Suc j ..< length ss])"
proof (induction "length ss - Suc j" arbitrary: j js)
  case 0
  then show ?case by simp
next
  case (Suc d)
  then have lt: "Suc j < length ss" by simp
  note z = zip_upt_drop[OF lt]
  have ih: "build_jobs_loop ss q (zip [Suc (Suc j) ..< length ss] (drop (Suc (Suc j)) ss))
              (window ss (Suc j)) js'
            = Inr (js' @ map (expected_job ss q) [Suc (Suc j) ..< length ss])" for js'
    using Suc.hyps(1)[of "Suc j" js'] Suc.hyps(2) lt by simp
  have upt: "[Suc j ..< length ss] = Suc j # [Suc (Suc j) ..< length ss]"
    using lt by (rule upt_conv_Cons)
  have "build_jobs_loop ss q (zip [Suc j ..< length ss] (drop (Suc j) ss)) (window ss j) js
        = Inr ((js @ [expected_job ss q (Suc j)])
               @ map (expected_job ss q) [Suc (Suc j) ..< length ss])"
    unfolding z build_jobs_loop_step[OF context_step_Suc[OF lt]] ih expected_job_def ..
  also have "(js @ [expected_job ss q (Suc j)]) @ map (expected_job ss q) [Suc (Suc j) ..< length ss]
             = js @ map (expected_job ss q) [Suc j ..< length ss]"
    by (simp only: upt list.map append_assoc append_Cons append_Nil)
  finally show ?case .
qed

lemma build_jobs_expected:
  "build_jobs ss q = Inr (map (expected_job ss q) [0 ..< length ss])"
proof (cases ss)
  case Nil
  then show ?thesis by (simp add: build_jobs_def)
next
  case (Cons s rest)
  then have pos: "0 < length ss" by simp
  have z: "zip [0 ..< length ss] ss = (0, ss ! 0) # zip [Suc 0 ..< length ss] (drop (Suc 0) ss)"
    using zip_upt_drop[OF pos] by simp
  have upt: "[0 ..< length ss] = 0 # [Suc 0 ..< length ss]"
    using pos by (rule upt_conv_Cons)
  have "build_jobs ss q
        = Inr (([] @ [expected_job ss q 0]) @ map (expected_job ss q) [Suc 0 ..< length ss])"
    unfolding build_jobs_def z build_jobs_loop_step[OF context_step_zero]
    using build_jobs_loop_from[of 0 ss q "[] @ [expected_job ss q 0]"] pos
    by (simp add: expected_job_def)
  also have "([] @ [expected_job ss q 0]) @ map (expected_job ss q) [Suc 0 ..< length ss]
             = map (expected_job ss q) [0 ..< length ss]"
    by (simp only: upt list.map append_assoc append_Cons append_Nil)
  finally show ?thesis .
qed

text \<open>
  Claim C5. For every list of sentences, \<open>_build_jobs\<close> returns one job per sentence, in
  the order of the sentences; the job at index \<open>i\<close> holds the sentence \<open>i\<close>, its
  \<open>raw_en_context_before\<close> has length \<open>min i 5\<close> and is the at most five sentences just
  before \<open>i\<close>, in order, and its \<open>raw_en_context_after\<close> is the sentence \<open>i + 1\<close> alone,
  or empty at the last index.
\<close>

theorem build_jobs_contexts:
  "\<exists>built. build_jobs ss q = Inr built \<and> length built = length ss \<and>
     (\<forall>i < length ss.
        map entry_text (job_sentences (built ! i)) = [ss ! i] \<and>
        length (raw_en_context_before (built ! i)) = min i 5 \<and>
        raw_en_context_before (built ! i) = drop (i - 5) (take i ss) \<and>
        raw_en_context_after (built ! i) = (if i + 1 < length ss then [ss ! (i + 1)] else []))"
  by (auto simp: build_jobs_expected expected_job_def make_job_def window_def)

theorem build_jobs_contexts_witness:
  "\<exists>built. build_jobs [''s0'', ''s1'', ''s2'', ''s3'', ''s4'', ''s5'', ''s6''] ''q'' = Inr built \<and>
     length built = 7 \<and>
     raw_en_context_before (built ! 6) = [''s1'', ''s2'', ''s3'', ''s4'', ''s5''] \<and>
     raw_en_context_after (built ! 6) = [] \<and>
     raw_en_context_before (built ! 2) = [''s0'', ''s1''] \<and>
     raw_en_context_after (built ! 2) = [''s3'']"
proof -
  let ?ss = "[''s0'', ''s1'', ''s2'', ''s3'', ''s4'', ''s5'', ''s6'']"
  from build_jobs_contexts[of ?ss "''q''"]
  obtain built where all: "build_jobs ?ss ''q'' = Inr built \<and> length built = length ?ss \<and>
     (\<forall>i < length ?ss.
        map entry_text (job_sentences (built ! i)) = [?ss ! i] \<and>
        length (raw_en_context_before (built ! i)) = min i 5 \<and>
        raw_en_context_before (built ! i) = drop (i - 5) (take i ?ss) \<and>
        raw_en_context_after (built ! i) = (if i + 1 < length ?ss then [?ss ! (i + 1)] else []))"
    by (rule exE)
  note b = all[THEN conjunct1] all[THEN conjunct2, THEN conjunct1]
  note ctx = all[THEN conjunct2, THEN conjunct2, rule_format]
  have c6: "raw_en_context_before (built ! 6) = [''s1'', ''s2'', ''s3'', ''s4'', ''s5'']"
           "raw_en_context_after (built ! 6) = []"
    using ctx[of 6] by simp_all
  have c2: "raw_en_context_before (built ! 2) = [''s0'', ''s1'']"
           "raw_en_context_after (built ! 2) = [''s3'']"
    using ctx[of 2] by simp_all
  show ?thesis
    using b c6 c2 by (intro exI[of _ built]) simp
qed

subsection \<open>The default dictionary\<close>

text \<open>
  Claim C2 (the code departs from it). With no glossary, that is with the default
  \<open>dictionary = None\<close>, \<open>_translate\<close> raises \<open>AttributeError\<close> before anything is sent:
  \<open>None != ""\<close> holds, and \<open>dictionary.source_language\<close> is read.
\<close>

theorem translate_without_glossary_raises:
  "DeeplTranslate_translate post preferred_langs now txt destination_language source_language
     formality_arg NoDictionary = Inl AttributeError"
  by (simp add: DeeplTranslate_translate_def translate_request_def build_termbase_def)

subsection \<open>The source language \<open>auto\<close>\<close>

lemma translate_request_auto:
  "\<exists>e. translate_request post preferred_langs now txt destination_language ''auto''
         formality_arg dictionary = Inl e"
proof -
  have "translate_request post preferred_langs now txt destination_language ''auto''
          formality_arg dictionary \<noteq> Inr p" for p
    by (auto simp: translate_request_def and_then_def Let_def split: sum.splits prod.splits)
  then show ?thesis
    by (cases "translate_request post preferred_langs now txt destination_language ''auto''
                 formality_arg dictionary") auto
qed

text \<open>
  Claim C4 (the code departs from it). With the source language \<open>auto\<close>, \<open>_translate\<close>
  never completes: whatever the glossary and the remote service, it raises. On the
  example service and the empty string for the dictionary it is the \<open>KeyError\<close> of
  \<open>params["lang"]["user_preferred_langs"]\<close>, a key the dictionary of \<open>_translate\<close> lacks.
\<close>

theorem translate_auto_raises:
  "(\<exists>e. DeeplTranslate_translate post preferred_langs now txt destination_language ''auto''
          formality_arg dictionary = Inl e)
   \<and> DeeplTranslate_translate example_post [''EN'', ''FR''] 0 ''Hello. How are you? Bye.'' ''FR''
       ''auto'' None (StrDictionary []) = Inl KeyError"
proof
  obtain e where "translate_request post preferred_langs now txt destination_language ''auto''
         formality_arg dictionary = Inl e"
    using translate_request_auto by blast
  then show "\<exists>e. DeeplTranslate_translate post preferred_langs now txt destination_language ''auto''
          formality_arg dictionary = Inl e"
    by (simp add: DeeplTranslate_translate_def)
next
  have split: "split_into_sentences example_post [''EN'', ''FR''] ''Hello. How are you? Bye.''
                 ''FR'' ''auto''
               = Inr (JArr [JStr ''Hello.'', JStr ''How are you?'', JStr ''Bye.''], JStr ''EN'')"
    by (simp add: split_into_sentences_def send_jsonrpc_def example_post_def list_getitem_def)
  obtain built where b: "build_jobs [JStr ''Hello.'', JStr ''How are you?'', JStr ''Bye.''] [] = Inr built"
    using build_jobs_expected by blast
  show "DeeplTranslate_translate example_post [''EN'', ''FR''] 0 ''Hello. How are you? Bye.'' ''FR''
       ''auto'' None (StrDictionary []) = Inl KeyError"
    by (simp add: DeeplTranslate_translate_def translate_request_def build_termbase_def split b
                  count_i_def Let_def)
qed

subsection \<open>The splitter\<close>

lemma split_into_sentences_remote:
  "split_into_sentences post preferred_langs txt destination_language source_language =
     and_then (send_jsonrpc post ''LMT_split_into_sentences''
                 (SplitParams [strip txt] source_language
                    (remdups (preferred_langs @ [destination_language])))) (\<lambda>resp.
     and_then (getitem_key resp ''splitted_texts'') (\<lambda>texts.
     and_then (getitem_int texts 0) (\<lambda>first.
     and_then (getitem_key resp ''lang'') (\<lambda>computed. Inr (first, computed)))))"
  by (simp add: split_into_sentences_def Let_def)

lemma regex_split_example:
  "SENTENCES_SPLITTING_REGEX_split ''Hi. Yo.'' = [''Hi.'', ''Yo.'']"
  by (simp add: SENTENCES_SPLITTING_REGEX_split_def is_sentence_end_def)

text \<open>
  Claim C1 (the code departs from it). \<open>_split_into_sentences\<close> has no local path: the
  line \<open>SENTENCES_SPLITTING_REGEX.split(text), None\<close> under \<open>if REGEX_SPLIT:\<close> lacks its
  \<open>return\<close>, so the pair is dropped and the remote call is made for every text. With
  the remote service unavailable the call raises; with the service at hand its answer is
  returned, not the text split on the pattern with a null language.
\<close>

theorem split_has_no_local_path:
  "split_into_sentences refused_post preferred_langs txt destination_language source_language
     = Inl TransportError
   \<and> split_into_sentences example_post [''EN'', ''FR''] ''Hi. Yo.'' ''FR'' ''EN''
     = Inr (JArr [JStr ''Hello.'', JStr ''How are you?'', JStr ''Bye.''], JStr ''EN'')
   \<and> SENTENCES_SPLITTING_REGEX_split ''Hi. Yo.'' = [''Hi.'', ''Yo.'']"
proof (intro conjI)
  show "split_into_sentences refused_post preferred_langs txt destination_language source_language
     = Inl TransportError"
    by (simp add: split_into_sentences_remote send_jsonrpc_def refused_post_def)
  show "split_into_sentences example_post [''EN'', ''FR''] ''Hi. Yo.'' ''FR'' ''EN''
     = Inr (JArr [JStr ''Hello.'', JStr ''How are you?'', JStr ''Bye.''], JStr ''EN'')"
    by (simp add: split_into_sentences_remote send_jsonrpc_def example_post_def list_getitem_def)
  show "SENTENCES_SPLITTING_REGEX_split ''Hi. Yo.'' = [''Hi.'', ''Yo.'']"
    by (rule regex_split_example)
qed

subsection \<open>The language pairs of a glossary\<close>

lemma upper_EN: "upper ''EN'' = ''EN''"
  by (simp add: upper_def upper_char_def)

lemma upper_KO: "upper ''KO'' = ''KO''"
  by (simp add: upper_def upper_char_def)

lemma KO_unsupported: "''KO'' \<notin> glossary_supported_languages"
  by (simp add: glossary_supported_languages_def)

lemma load_glossary_EN_KO:
  "load_glossary_from_csv read_csv file_path separator encoding ''EN'' ''KO''
     = Inl (DeeplTranslateException (JNum 5000))"
  unfolding load_glossary_from_csv_def upper_EN upper_KO Let_def
  using KO_unsupported by simp

text \<open>
  Against claim C3: on a file that is read without error, \<open>EN\<close> with \<open>KO\<close> raises the
  error of code 5000, not that of code 5002.
\<close>

theorem load_glossary_EN_KO_not_5002:
  "load_glossary_from_csv (\<lambda>file_path separator encoding. Inr [(''EN'', [''cat'']), (''KO'', [''x''])])
     ''glossary.csv'' '';'' ''utf-8'' ''EN'' ''KO''
     = Inl (DeeplTranslateException (JNum 5000))
   \<and> load_glossary_from_csv (\<lambda>file_path separator encoding. Inr [(''EN'', [''cat'']), (''KO'', [''x''])])
     ''glossary.csv'' '';'' ''utf-8'' ''EN'' ''KO''
     \<noteq> Inl (DeeplTranslateException (JNum 5002))"
  by (simp add: load_glossary_EN_KO)

text \<open>
  Claim C3, amended. \<open>load_glossary_from_csv\<close> with the source language \<open>EN\<close> and the
  target language \<open>KO\<close> raises, before the file is read, the error of code 5000, whose
  message is "Unsported language for glossary.": \<open>KO\<close> is not among the languages a
  glossary supports, and this is tested first. The message "EN can only be combined
  with ..." is that of code 5002.
\<close>

theorem load_glossary_EN_KO_unsupported:
  "load_glossary_from_csv read_csv file_path separator encoding ''EN'' ''KO''
     = Inl (DeeplTranslateException (JNum 5000))
   \<and> map_of error_codes 5000 = Some ''Unsported language for glossary.''
   \<and> map_of error_codes 5002
     = Some ''Invalid CSV file: EN can only be combined with FR, DE, ES, IT, PL, JA, NL.''"
  using load_glossary_EN_KO by (simp add: error_codes_def)

theorem load_glossary_EN_KO_unsupported_witness:
  "load_glossary_from_csv (\<lambda>file_path separator encoding. Inl FileError)
     ''terms.csv'' '','' ''latin-1'' ''EN'' ''KO''
     = Inl (DeeplTranslateException (JNum 5000))"
  using load_glossary_EN_KO_unsupported
          [of "\<lambda>file_path separator encoding. Inl FileError" "''terms.csv''" "'',''" "''latin-1''"]
  by simp

subsection \<open>Failures of the transport\<close>

lemma bing_returns: "\<exists>r. BingTranslate_translate bing_post loads txt destination_language source = Inr r"
  by (simp add: BingTranslate_translate_def Let_def split: sum.split)

lemma bing_transport_failure:
  "BingTranslate_translate (\<lambda>t s d. Inl e) loads txt destination_language source
     = Inr (JNull, JNull)"
  by (simp add: BingTranslate_translate_def Let_def)

lemma bing_parse_failure:
  "BingTranslate_translate (\<lambda>t s d. Inr (200, body)) (\<lambda>b. Inl e) txt destination_language source
     = Inr (JNull, JNull)"
  by (simp add: BingTranslate_translate_def Let_def)

lemma deepl_transport_failure:
  "\<exists>e'. DeeplTranslate_translate (\<lambda>method params. Inl e) preferred_langs now txt
          destination_language source_language formality_arg dictionary = Inl e'"
proof (cases "build_termbase txt destination_language source_language dictionary")
  case (Inl a)
  then show ?thesis
    by (simp add: DeeplTranslate_translate_def translate_request_def)
next
  case (Inr b)
  then show ?thesis
    by (cases b)
       (simp add: DeeplTranslate_translate_def translate_request_def split_into_sentences_remote
                  send_jsonrpc_def)
qed

text \<open>
  Against claim C9: \<open>_translate\<close> of the DeepL translator, on a transport that refuses
  every connection, raises the error of the transport.
\<close>

theorem deepl_translate_raises_on_refusal:
  "DeeplTranslate_translate refused_post [''EN'', ''FR''] 0 ''Hello.'' ''FR'' ''EN'' None
     (StrDictionary []) = Inl TransportError"
  by (simp add: DeeplTranslate_translate_def translate_request_def build_termbase_def
                split_into_sentences_remote send_jsonrpc_def refused_post_def)

text \<open>
  Claim C9, amended. \<open>BingTranslate.translate\<close> returns for every transport, parser and
  input, and returns the pair \<open>(None, None)\<close> when the transport fails or the body of
  the response does not parse. \<open>_translate\<close> of the DeepL translator has no handler:
  when the transport fails, it raises.
\<close>

theorem translate_failures:
  "(\<exists>r. BingTranslate_translate bing_post loads txt destination_language source = Inr r)
   \<and> BingTranslate_translate (\<lambda>t s d. Inl e) loads txt destination_language source
     = Inr (JNull, JNull)
   \<and> BingTranslate_translate (\<lambda>t s d. Inr (200, body)) (\<lambda>b. Inl e) txt destination_language source
     = Inr (JNull, JNull)
   \<and> (\<exists>e'. DeeplTranslate_translate (\<lambda>method params. Inl e) preferred_langs now txt
          destination_language source_language formality_arg dictionary = Inl e')"
  by (intro conjI bing_returns bing_transport_failure bing_parse_failure deepl_transport_failure)

subsection \<open>The timestamp\<close>

lemma and_then_eq_Inr: "and_then m f = Inr y \<longleftrightarrow> (\<exists>x. m = Inr x \<and> f x = Inr y)"
  by (cases m) simp_all

lemma stamp_dvd: "(n :: int) dvd ts + (n - ts mod n)"
proof -
  have "ts + (n - ts mod n) = n * (ts div n + 1)"
    by (simp add: algebra_simps minus_mod_eq_mult_div [symmetric])
  then show ?thesis
    by simp
qed

lemma sum_counts_strings:
  "sum_counts (map JStr strs) = Inr (int (length (filter (\<lambda>c. c = CHR ''i'') (concat strs))))"
  by (induction strs) (simp_all add: count_i_def)

lemma translate_request_parts:
  assumes "translate_request post preferred_langs now txt destination_language source_language
             formality_arg dictionary = Inr p"
  shows "\<exists>first computed ss cnt.
           split_into_sentences post preferred_langs txt destination_language source_language
             = Inr (first, computed)
           \<and> sentence_list first = Inr ss \<and> sum_counts ss = Inr cnt"
  using assms
  by (auto simp: translate_request_def and_then_eq_Inr split: prod.splits)

lemma translate_request_stamp:
  assumes "translate_request post preferred_langs now txt destination_language source_language
             formality_arg dictionary = Inr p"
    and "split_into_sentences post preferred_langs txt destination_language source_language
             = Inr (first, computed)"
    and "sentence_list first = Inr ss" and "sum_counts ss = Inr cnt"
  shows "timestamp p
             = (now * 100 + 1000) + ((1 + cnt) - (now * 100 + 1000) mod (1 + cnt))"
  using assms
  by (auto simp: translate_request_def and_then_eq_Inr Let_def split: prod.splits if_splits)

lemma translate_request_timestamp:
  assumes "translate_request post preferred_langs now txt destination_language source_language
             formality_arg dictionary = Inr p"
  shows "\<exists>first computed ss cnt.
           split_into_sentences post preferred_langs txt destination_language source_language
             = Inr (first, computed)
           \<and> sentence_list first = Inr ss \<and> sum_counts ss = Inr cnt
           \<and> timestamp p
             = (now * 100 + 1000) + ((1 + cnt) - (now * 100 + 1000) mod (1 + cnt))"
  using translate_request_parts [OF assms] translate_request_stamp [OF assms] by blast

lemma language_request_parts:
  assumes "language_request post preferred_langs now txt = Inr p"
  shows "\<exists>first computed ss cnt.
           split_into_sentences post preferred_langs txt ''EN'' ''AUTO'' = Inr (first, computed)
           \<and> sentence_list first = Inr ss \<and> sum_counts ss = Inr cnt"
  using assms
  by (auto simp: language_request_def and_then_eq_Inr split: prod.splits)

lemma language_request_stamp:
  assumes "language_request post preferred_langs now txt = Inr p"
    and "split_into_sentences post preferred_langs txt ''EN'' ''AUTO'' = Inr (first, computed)"
    and "sentence_list first = Inr ss" and "sum_counts ss = Inr cnt"
  shows "timestamp p
             = (now * 100 + 1000) + ((1 + cnt) - (now * 100 + 1000) mod (1 + cnt))"
  using assms
  by (auto simp: language_request_def and_then_eq_Inr Let_def split: prod.splits if_splits)

lemma language_request_timestamp:
  assumes "language_request post preferred_langs now txt = Inr p"
  shows "\<exists>first computed ss cnt.
           split_into_sentences post preferred_langs txt ''EN'' ''AUTO'' = Inr (first, computed)
           \<and> sentence_list first = Inr ss \<and> sum_counts ss = Inr cnt
           \<and> timestamp p
             = (now * 100 + 1000) + ((1 + cnt) - (now * 100 + 1000) mod (1 + cnt))"
  using language_request_parts [OF assms] language_request_stamp [OF assms] by blast



text \<open>
  Claim C7. Whenever \<open>_translate\<close> or \<open>_language\<close> gets as far as the parameters of its
  job batch, the \<open>timestamp\<close> in them is \<open>ts + (N - ts mod N)\<close>, where \<open>ts\<close> is the base
  timestamp \<open>int(time() * 10) * 100 + 1000\<close> and \<open>N\<close> is one more than the sum of
  \<open>sentence.count("i")\<close> over the sentences the splitter returned. When the sentences are
  strings, this sum is the number of characters \<open>i\<close> in all of them together, stated
  below on the list itself: the length of what \<open>filter\<close> keeps of their concatenation. So
  \<open>N\<close> divides the timestamp.
\<close>

theorem timestamp_formula:
  "(translate_request post preferred_langs now txt destination_language source_language
      formality_arg dictionary = Inr p
    \<longrightarrow> (\<exists>first computed ss cnt.
          split_into_sentences post preferred_langs txt destination_language source_language
            = Inr (first, computed)
        \<and> sentence_list first = Inr ss \<and> sum_counts ss = Inr cnt
        \<and> (\<forall>strs. ss = map JStr strs \<longrightarrow> cnt = int (length (filter (\<lambda>c. c = CHR ''i'') (concat strs))))
        \<and> timestamp p
          = (now * 100 + 1000) + ((1 + cnt) - (now * 100 + 1000) mod (1 + cnt))
        \<and> (1 + cnt) dvd timestamp p))
   \<and> (language_request post preferred_langs now txt = Inr q
    \<longrightarrow> (\<exists>first computed ss cnt.
          split_into_sentences post preferred_langs txt ''EN'' ''AUTO'' = Inr (first, computed)
        \<and> sentence_list first = Inr ss \<and> sum_counts ss = Inr cnt
        \<and> (\<forall>strs. ss = map JStr strs \<longrightarrow> cnt = int (length (filter (\<lambda>c. c = CHR ''i'') (concat strs))))
        \<and> timestamp q
          = (now * 100 + 1000) + ((1 + cnt) - (now * 100 + 1000) mod (1 + cnt))
        \<and> (1 + cnt) dvd timestamp q))"
proof (intro conjI impI)
  assume "translate_request post preferred_langs now txt destination_language source_language
      formality_arg dictionary = Inr p"
  then obtain first computed ss cnt where
    s: "split_into_sentences post preferred_langs txt destination_language source_language
             = Inr (first, computed)"
    and l: "sentence_list first = Inr ss"
    and c: "sum_counts ss = Inr cnt"
    and t: "timestamp p
          = (now * 100 + 1000) + ((1 + cnt) - (now * 100 + 1000) mod (1 + cnt))"
    using translate_request_timestamp by blast
  have d: "(1 + cnt) dvd timestamp p"
    unfolding t by (rule stamp_dvd)
  have n: "\<forall>strs. ss = map JStr strs \<longrightarrow> cnt = int (length (filter (\<lambda>c. c = CHR ''i'') (concat strs)))"
    using c by (auto simp: sum_counts_strings)
  from s l c t d n show "\<exists>first computed ss cnt.
          split_into_sentences post preferred_langs txt destination_language source_language
            = Inr (first, computed)
        \<and> sentence_list first = Inr ss \<and> sum_counts ss = Inr cnt
        \<and> (\<forall>strs. ss = map JStr strs \<longrightarrow> cnt = int (length (filter (\<lambda>c. c = CHR ''i'') (concat strs))))
        \<and> timestamp p
          = (now * 100 + 1000) + ((1 + cnt) - (now * 100 + 1000) mod (1 + cnt))
        \<and> (1 + cnt) dvd timestamp p"
    by blast
next
  assume "language_request post preferred_langs now txt = Inr q"
  then obtain first computed ss cnt where
    s: "split_into_sentences post preferred_langs txt ''EN'' ''AUTO'' = Inr (first, computed)"
    and l: "sentence_list first = Inr ss"
    and c: "sum_counts ss = Inr cnt"
    and t: "timestamp q
          = (now * 100 + 1000) + ((1 + cnt) - (now * 100 + 1000) mod (1 + cnt))"
    using language_request_timestamp by blast
  have d: "(1 + cnt) dvd timestamp q"
    unfolding t by (rule stamp_dvd)
  have n: "\<forall>strs. ss = map JStr strs \<longrightarrow> cnt = int (length (filter (\<lambda>c. c = CHR ''i'') (concat strs)))"
    using c by (auto simp: sum_counts_strings)
  from s l c t d n show "\<exists>first computed ss cnt.
          split_into_sentences post preferred_langs txt ''EN'' ''AUTO'' = Inr (first, computed)
        \<and> sentence_list first = Inr ss \<and> sum_counts ss = Inr cnt
        \<and> (\<forall>strs. ss = map JStr strs \<longrightarrow> cnt = int (length (filter (\<lambda>c. c = CHR ''i'') (concat strs))))
        \<and> timestamp q
          = (now * 100 + 1000) + ((1 + cnt) - (now * 100 + 1000) mod (1 + cnt))
        \<and> (1 + cnt) dvd timestamp q"
    by blast
qed

theorem timestamp_formula_witness:
  "\<exists>p q. translate_request greeting_post [''EN'', ''FR''] 17 ''Hi. Fine.'' ''FR'' ''EN''
           None (StrDictionary []) = Inr p
       \<and> language_request greeting_post [''EN'', ''FR''] 17 ''Hi. Fine.'' = Inr q
       \<and> timestamp p = 2703 \<and> (3 :: int) dvd timestamp p
       \<and> timestamp q = 2703 \<and> (3 :: int) dvd timestamp q"
proof -
  have split: "split_into_sentences greeting_post [''EN'', ''FR''] ''Hi. Fine.'' dst src
     = Inr (JArr [JStr ''Hi.'', JStr ''Fine.''], JStr ''EN'')" for dst src
    by (simp add: split_into_sentences_remote send_jsonrpc_def greeting_post_def list_getitem_def)
  obtain built where b: "build_jobs [JStr ''Hi.'', JStr ''Fine.''] [] = Inr built"
    using build_jobs_expected by blast
  obtain p where p: "translate_request greeting_post [''EN'', ''FR''] 17 ''Hi. Fine.'' ''FR'' ''EN''
         None (StrDictionary []) = Inr p"
    by (simp add: translate_request_def build_termbase_def split b count_i_def Let_def)
  obtain q where q: "language_request greeting_post [''EN'', ''FR''] 17 ''Hi. Fine.'' = Inr q"
    by (simp add: language_request_def split b count_i_def Let_def)
  note both = timestamp_formula [of greeting_post "[''EN'', ''FR'']" 17 "''Hi. Fine.''" "''FR''"
         "''EN''" None "StrDictionary []" p q]
  from both p obtain first computed ss cnt where
    s: "split_into_sentences greeting_post [''EN'', ''FR''] ''Hi. Fine.'' ''FR'' ''EN''
             = Inr (first, computed)"
    and l: "sentence_list first = Inr ss"
    and n: "\<forall>strs. ss = map JStr strs
              \<longrightarrow> cnt = int (length (filter (\<lambda>c. c = CHR ''i'') (concat strs)))"
    and t: "timestamp p
          = (17 * 100 + 1000) + ((1 + cnt) - (17 * 100 + 1000) mod (1 + cnt))"
    and d: "(1 + cnt) dvd timestamp p"
    by blast
  from s have "first = JArr [JStr ''Hi.'', JStr ''Fine.'']"
    by (simp add: split)
  with l have "ss = map JStr [''Hi.'', ''Fine.'']"
    by auto
  with n have "cnt = int (length (filter (\<lambda>c. c = CHR ''i'') (concat [''Hi.'', ''Fine.''])))"
    by blast
  then have "cnt = 2"
    by simp
  with t d have tp: "timestamp p = 2703 \<and> (3 :: int) dvd timestamp p"
    by simp
  from both q obtain first' computed' ss' cnt' where
    s': "split_into_sentences greeting_post [''EN'', ''FR''] ''Hi. Fine.'' ''EN'' ''AUTO''
             = Inr (first', computed')"
    and l': "sentence_list first' = Inr ss'"
    and n': "\<forall>strs. ss' = map JStr strs
              \<longrightarrow> cnt' = int (length (filter (\<lambda>c. c = CHR ''i'') (concat strs)))"
    and t': "timestamp q
          = (17 * 100 + 1000) + ((1 + cnt') - (17 * 100 + 1000) mod (1 + cnt'))"
    and d': "(1 + cnt') dvd timestamp q"
    by blast
  from s' have "first' = JArr [JStr ''Hi.'', JStr ''Fine.'']"
    by (simp add: split)
  with l' have "ss' = map JStr [''Hi.'', ''Fine.'']"
    by auto
  with n' have "cnt' = int (length (filter (\<lambda>c. c = CHR ''i'') (concat [''Hi.'', ''Fine.''])))"
    by blast
  then have "cnt' = 2"
    by simp
  with t' d' have tq: "timestamp q = 2703 \<and> (3 :: int) dvd timestamp q"
    by simp
  from p q tp tq show ?thesis
    by blast
qed

subsection \<open>The text of the translation\<close>








subsection \<open>The glossary matcher\<close>

lemma target_of_first:
  assumes "frame_column frame sc = Inr sources" "frame_column frame tc = Inr targets"
      and "w \<in> set sources" "length sources \<le> length targets"
  shows "target_of frame sc tc w = Inr (first_target sources targets w)"
proof -
  obtain i where i: "i < length sources" "sources ! i = w"
    using assms(3) by (auto simp: in_set_conv_nth)
  then have "(w, targets ! i) \<in> set (zip sources targets)"
    using assms(4) by (auto simp: set_zip)
  then have "filter (\<lambda>(s, t). s = w) (zip sources targets) \<noteq> []"
    by (auto simp: filter_empty_conv)
  then show ?thesis
    using assms(1,2) by (auto simp: target_of_def first_target_def split: list.splits)
qed

lemma render_pairs_append: "render_pairs (ps @ qs) = render_pairs ps @ render_pairs qs"
  by (simp add: render_pairs_def)

lemma glossary_loop_exact:
  assumes cols: "frame_column (glossary_dataframe g) (upper source_language) = Inr sources"
                "frame_column (glossary_dataframe g) (upper (glossary_target_language g)) = Inr targets"
      and len: "length sources \<le> length targets"
  shows "set ws \<subseteq> set sources \<Longrightarrow> 0 \<le> limit \<Longrightarrow>
         \<exists>extra. glossary_loop g source_language tx ws (limit, fs, warns) =
           Inr (limit - int (length (take (nat limit) (filter quote_free (matched_pairs sources targets tx ws)))),
                fs @ render_pairs (take (nat limit) (filter quote_free (matched_pairs sources targets tx ws))),
                warns @ extra)
           \<and> length (filter (\<lambda>p. \<not> quote_free p) (matched_pairs sources targets tx ws)) \<le> length extra"
proof (induction ws arbitrary: limit fs warns)
  case Nil
  then show ?case by (simp add: matched_pairs_def render_pairs_def)
next
  case (Cons w ws)
  have sub: "set ws \<subseteq> set sources" and w: "w \<in> set sources" using Cons.prems(1) by auto
  have tgt: "target_of (glossary_dataframe g) (upper source_language)
               (upper (glossary_target_language g)) w = Inr (first_target sources targets w)"
    by (rule target_of_first[OF cols w len])
  let ?p = "(w, first_target sources targets w)"
  show ?case
  proof (cases "str_in w tx")
    case False
    then have step: "glossary_word g source_language tx w (limit, fs, warns) = Inr (limit, fs, warns)"
      by (simp add: glossary_word_def)
    have mp: "matched_pairs sources targets tx (w # ws) = matched_pairs sources targets tx ws"
      using False by (simp add: matched_pairs_def)
    show ?thesis using Cons.IH[OF sub Cons.prems(2), of fs warns] by (simp add: step mp)
  next
    case True
    have mp: "matched_pairs sources targets tx (w # ws) = ?p # matched_pairs sources targets tx ws"
      using True by (simp add: matched_pairs_def)
    show ?thesis
    proof (cases "limit > 0")
      case False
      then have l0: "limit = 0" using Cons.prems(2) by simp
      have step: "glossary_word g source_language tx w (limit, fs, warns) = Inr (0, fs, warns @ [LimitWarning])"
        using True l0 by (simp add: glossary_word_def)
      obtain extra where e: "glossary_loop g source_language tx ws (0, fs, warns @ [LimitWarning]) =
           Inr (0 - int (length (take (nat 0) (filter quote_free (matched_pairs sources targets tx ws)))),
                fs @ render_pairs (take (nat 0) (filter quote_free (matched_pairs sources targets tx ws))),
                (warns @ [LimitWarning]) @ extra)"
           "length (filter (\<lambda>p. \<not> quote_free p) (matched_pairs sources targets tx ws)) \<le> length extra"
        using Cons.IH[OF sub, of 0 fs "warns @ [LimitWarning]"] by auto
      show ?thesis
        using e by (intro exI[of _ "LimitWarning # extra"]) (simp add: step[unfolded l0] l0 mp render_pairs_def)
    next
      case pos: True
      show ?thesis
      proof (cases "quote_free ?p")
        case False
        then have step: "glossary_word g source_language tx w (limit, fs, warns) = Inr (limit, fs, warns @ [QuoteWarning])"
          using True pos by (auto simp: glossary_word_def tgt quote_free_def)
        obtain extra where e: "glossary_loop g source_language tx ws (limit, fs, warns @ [QuoteWarning]) =
           Inr (limit - int (length (take (nat limit) (filter quote_free (matched_pairs sources targets tx ws)))),
                fs @ render_pairs (take (nat limit) (filter quote_free (matched_pairs sources targets tx ws))),
                (warns @ [QuoteWarning]) @ extra)"
           "length (filter (\<lambda>p. \<not> quote_free p) (matched_pairs sources targets tx ws)) \<le> length extra"
          using Cons.IH[OF sub Cons.prems(2), of fs "warns @ [QuoteWarning]"] by auto
        show ?thesis
          using e False by (intro exI[of _ "QuoteWarning # extra"]) (simp add: step mp)
      next
        case qf: True
        let ?fs = "fs @ w @ [TAB] @ first_target sources targets w @ [NEWLINE]"
        let ?warns = "if limit - 1 = 0 then warns @ [LimitWarning] else warns"
        have step: "glossary_word g source_language tx w (limit, fs, warns) = Inr (limit - 1, ?fs, ?warns)"
          using True pos qf by (auto simp: glossary_word_def tgt quote_free_def)
        have nl: "nat limit = Suc (nat (limit - 1))" using pos by simp
        obtain extra where e: "glossary_loop g source_language tx ws (limit - 1, ?fs, ?warns) =
           Inr (limit - 1 - int (length (take (nat (limit - 1)) (filter quote_free (matched_pairs sources targets tx ws)))),
                ?fs @ render_pairs (take (nat (limit - 1)) (filter quote_free (matched_pairs sources targets tx ws))),
                ?warns @ extra)"
           "length (filter (\<lambda>p. \<not> quote_free p) (matched_pairs sources targets tx ws)) \<le> length extra"
          using Cons.IH[OF sub, of "limit - 1" ?fs ?warns] pos by auto
        show ?thesis
          using e qf
          by (intro exI[of _ "(if limit - 1 = 0 then [LimitWarning] else []) @ extra"])
             (simp add: step mp nl render_pairs_def)
      qed
    qed
  qed
qed

lemma replace_absent: "c \<in> set old \<Longrightarrow> c \<notin> set s \<Longrightarrow> replace old new s = s"
proof (induction s)
  case Nil
  then show ?case by simp
next
  case (Cons x xs)
  have ne: "take (length old) (x # xs) \<noteq> old"
  proof
    assume "take (length old) (x # xs) = old"
    then have "set old \<subseteq> set (x # xs)" by (metis set_take_subset)
    then show False using Cons.prems by auto
  qed
  from Cons.prems have "c \<notin> set xs" by simp
  with Cons.IH Cons.prems(1) have "replace old new xs = xs" by blast
  with ne show ?case by (simp only: replace.simps if_False simp_thms)
qed

lemma render_pairs_Cons:
  "render_pairs ((w, t) # ps) = w @ [TAB] @ t @ [NEWLINE] @ render_pairs ps"
  by (simp add: render_pairs_def)

lemma quote_notin_render:
  "\<forall>p \<in> set ps. quote_free p \<Longrightarrow> QUOTE \<notin> set (render_pairs ps)"
proof (induction ps)
  case Nil
  then show ?case by (simp add: render_pairs_def)
next
  case (Cons p ps)
  obtain w t where p: "p = (w, t)" by (cases p)
  from Cons.prems have "QUOTE \<notin> set w" "QUOTE \<notin> set t"
    by (simp_all add: p quote_free_def)
  moreover have "QUOTE \<noteq> TAB" "QUOTE \<noteq> NEWLINE"
    by (simp_all add: QUOTE_def TAB_def NEWLINE_def)
  moreover have "QUOTE \<notin> set (render_pairs ps)"
    using Cons by simp
  ultimately show ?case
    by (simp add: p render_pairs_Cons)
qed

lemma render_pairs_last:
  "ps \<noteq> [] \<Longrightarrow> render_pairs ps \<noteq> [] \<and> last (render_pairs ps) = NEWLINE"
proof (induction ps rule: rev_induct)
  case Nil
  then show ?case by simp
next
  case (snoc p ps)
  obtain w t where p: "p = (w, t)" by (cases p)
  have "render_pairs (ps @ [p]) = (render_pairs ps @ w @ [TAB] @ t) @ [NEWLINE]"
    by (simp add: render_pairs_def p)
  then show ?case
    by (simp only: snoc_eq_iff_butlast last_snoc) simp
qed

lemma list_getitem_last: "xs \<noteq> [] \<Longrightarrow> list_getitem xs (- 1) = Inr (last xs)"
proof -
  assume ne: "xs \<noteq> []"
  then obtain y ys where xs: "xs = y # ys" by (cases xs) auto
  have idx: "nat (int (length xs) + - 1) = length xs - 1"
    by (simp add: xs)
  have "list_getitem xs (- 1) = Inr (xs ! nat (int (length xs) + - 1))"
    unfolding list_getitem_def by (simp add: xs)
  with idx ne show ?thesis
    by (simp add: last_conv_nth)
qed

lemma termbase_finish:
  assumes qf: "\<forall>p \<in> set ps. quote_free p"
  shows "(if render_pairs ps \<noteq> [] then
            (let replaced = replace [QUOTE, TAB, QUOTE, NEWLINE] [] (render_pairs ps)
             in and_then (list_getitem replaced (- 1)) (\<lambda>final.
                  if final = NEWLINE then Inr (butlast replaced, warns)
                  else Inr (replaced, warns)))
          else Inr (render_pairs ps, warns)) = Inr (butlast (render_pairs ps), warns)"
proof (cases "ps = []")
  case True
  then show ?thesis by (simp add: render_pairs_def)
next
  case False
  have "QUOTE \<in> set [QUOTE, TAB, QUOTE, NEWLINE]" by simp
  then have r: "replace [QUOTE, TAB, QUOTE, NEWLINE] [] (render_pairs ps) = render_pairs ps"
    using quote_notin_render [OF qf] by (rule replace_absent)
  from render_pairs_last [OF False] have ne: "render_pairs ps \<noteq> []"
    and la: "last (render_pairs ps) = NEWLINE" by simp_all
  show ?thesis
    unfolding Let_def r by (simp add: ne la list_getitem_last [OF ne])
qed

lemma build_termbase_exact:
  assumes valid: "str_in (upper source_language) (glossary_source_language g)"
                 "str_in (upper destination_language) (glossary_target_language g)"
      and cols: "frame_column (glossary_dataframe g) (upper source_language) = Inr sources"
                "frame_column (glossary_dataframe g) (upper (glossary_target_language g)) = Inr targets"
      and len: "length sources \<le> length targets"
  shows "\<exists>warns.
           glossary_loop g source_language tx sources (10, [], [])
             = Inr (10 - int (length (take 10 (filter quote_free
                                 (matched_pairs sources targets tx sources)))),
                    render_pairs (take 10 (filter quote_free
                                 (matched_pairs sources targets tx sources))),
                    warns)
         \<and> build_termbase tx destination_language source_language (Glossary g)
             = Inr (butlast (render_pairs (take 10 (filter quote_free
                                 (matched_pairs sources targets tx sources)))), warns)
         \<and> length (filter (\<lambda>p. \<not> quote_free p) (matched_pairs sources targets tx sources))
             \<le> length warns"
proof -
  let ?E = "take 10 (filter quote_free (matched_pairs sources targets tx sources))"
  have ten: "nat 10 = 10" by simp
  have "set sources \<subseteq> set sources" "(0 :: int) \<le> 10" by simp_all
  from glossary_loop_exact [OF cols len this, where tx = tx and fs = "[]" and warns = "[]"]
  obtain extra where loop: "glossary_loop g source_language tx sources (10, [], []) =
        Inr (10 - int (length ?E), render_pairs ?E, extra)"
    and warned: "length (filter (\<lambda>p. \<not> quote_free p) (matched_pairs sources targets tx sources))
                   \<le> length extra"
    unfolding ten append_Nil by blast
  have qf: "\<forall>p \<in> set ?E. quote_free p"
    by (auto dest: in_set_takeD)
  have "build_termbase tx destination_language source_language (Glossary g) =
        Inr (butlast (render_pairs ?E), extra)"
    unfolding build_termbase_def
    by (simp add: valid cols loop termbase_finish [OF qf] del: replace.simps)
  with loop warned show ?thesis
    by blast
qed

lemma str_in_iff: "str_in w s \<longleftrightarrow> (\<exists>pre post. s = pre @ w @ post)"
proof (induction s)
  case Nil
  show ?case by auto
next
  case (Cons c cs)
  show ?case
  proof
    assume "str_in w (c # cs)"
    then consider "take (length w) (c # cs) = w" | "str_in w cs" by auto
    then show "\<exists>pre post. c # cs = pre @ w @ post"
    proof cases
      case 1
      have "c # cs = [] @ take (length w) (c # cs) @ drop (length w) (c # cs)"
        by (simp only: append_Nil append_take_drop_id)
      with 1 show ?thesis by metis
    next
      case 2
      with Cons.IH obtain pre post where "cs = pre @ w @ post" by blast
      then have "c # cs = (c # pre) @ w @ post" by simp
      then show ?thesis by blast
    qed
  next
    assume "\<exists>pre post. c # cs = pre @ w @ post"
    then obtain pre post where e: "c # cs = pre @ w @ post" by blast
    show "str_in w (c # cs)"
    proof (cases pre)
      case Nil
      with e have "take (length w) (c # cs) = w" by simp
      then show ?thesis by simp
    next
      case (Cons p pre')
      with e have "cs = pre' @ w @ post" by simp
      with Cons.IH have "str_in w cs" by blast
      then show ?thesis by simp
    qed
  qed
qed

lemma first_target_hd:
  assumes "w \<in> set sources" "length sources \<le> length targets"
  shows "first_target sources targets w
         = snd (hd (filter (\<lambda>(s, t). s = w) (zip sources targets)))"
proof -
  obtain i where i: "i < length sources" "sources ! i = w"
    using assms(1) by (auto simp: in_set_conv_nth)
  then have "(w, targets ! i) \<in> set (zip sources targets)"
    using assms(2) by (auto simp: set_zip)
  then have "filter (\<lambda>(s, t). s = w) (zip sources targets) \<noteq> []"
    by (auto simp: filter_empty_conv)
  then show ?thesis
    by (cases "filter (\<lambda>(s, t). s = w) (zip sources targets)") (simp_all add: first_target_def)
qed

lemma matched_pairs_plain:
  assumes "length sources \<le> length targets"
  shows "matched_pairs sources targets tx sources
         = map (\<lambda>w. (w, snd (hd (filter (\<lambda>(s, t). s = w) (zip sources targets)))))
             (filter (\<lambda>w. \<exists>pre post. tx = pre @ w @ post) sources)"
proof -
  have f: "filter (\<lambda>w. str_in w tx) sources
           = filter (\<lambda>w. \<exists>pre post. tx = pre @ w @ post) sources"
    by (simp add: str_in_iff)
  have "map (\<lambda>w. (w, first_target sources targets w))
          (filter (\<lambda>w. \<exists>pre post. tx = pre @ w @ post) sources)
     = map (\<lambda>w. (w, snd (hd (filter (\<lambda>(s, t). s = w) (zip sources targets)))))
          (filter (\<lambda>w. \<exists>pre post. tx = pre @ w @ post) sources)"
  proof (rule map_cong [OF refl])
    fix w
    assume "w \<in> set (filter (\<lambda>w. \<exists>pre post. tx = pre @ w @ post) sources)"
    then have "w \<in> set sources" by simp
    then show "(w, first_target sources targets w)
               = (w, snd (hd (filter (\<lambda>(s, t). s = w) (zip sources targets))))"
      using first_target_hd [OF _ assms] by simp
  qed
  then show ?thesis
    unfolding matched_pairs_def f .
qed

lemma quote_free_plain: "quote_free = (\<lambda>(w, t). CHR 0x22 \<notin> set w \<and> CHR 0x22 \<notin> set t)"
  by (auto simp: quote_free_def QUOTE_def fun_eq_iff)

lemma render_pairs_plain:
  "render_pairs ps = concat (map (\<lambda>(w, t). w @ [CHR 0x09] @ t @ [CHR 0x0A]) ps)"
  by (simp add: render_pairs_def TAB_def NEWLINE_def)

lemma quoted_filter_plain:
  "filter (\<lambda>p. \<not> quote_free p) ps
   = filter (\<lambda>(w, t). CHR 0x22 \<in> set w \<or> CHR 0x22 \<in> set t) ps"
  by (rule filter_cong) (auto simp: quote_free_def QUOTE_def)

text \<open>
  Claim C10. In the loop over the source column, started with the budget of 10, a
  matched row with a quote in its word or in its target leaves the budget as it is: the
  loop ends with the budget 10 less the number of pairs written, and the pairs written
  are the first 10 of the matched rows free of quotes, whatever number of rows with
  quotes was matched before them. (The frame has both columns, and no column is shorter
  than the source column.)
\<close>

theorem quoted_entries_keep_budget:
  assumes "frame_column (glossary_dataframe g) (upper source_language) = Inr sources"
    and "frame_column (glossary_dataframe g) (upper (glossary_target_language g)) = Inr targets"
    and "length sources \<le> length targets"
  shows "let matched = map (\<lambda>w. (w, snd (hd (filter (\<lambda>(s, t). s = w) (zip sources targets)))))
                         (filter (\<lambda>w. \<exists>pre post. tx = pre @ w @ post) sources);
             emitted = take 10 (filter (\<lambda>(w, t). CHR 0x22 \<notin> set w \<and> CHR 0x22 \<notin> set t) matched)
         in length emitted
              = min 10 (length (filter (\<lambda>(w, t). CHR 0x22 \<notin> set w \<and> CHR 0x22 \<notin> set t) matched))
          \<and> (\<exists>warns. glossary_loop g source_language tx sources (10, [], [])
                = Inr (10 - int (length emitted),
                       concat (map (\<lambda>(w, t). w @ [CHR 0x09] @ t @ [CHR 0x0A]) emitted),
                       warns))"
proof -
  have "set sources \<subseteq> set sources" "(0 :: int) \<le> 10" by simp_all
  from glossary_loop_exact [OF assms this, where tx = tx and fs = "[]" and warns = "[]"]
  obtain extra where "glossary_loop g source_language tx sources (10, [], []) =
        Inr (10 - int (length (take (nat 10) (filter quote_free
                                 (matched_pairs sources targets tx sources)))),
             [] @ render_pairs (take (nat 10) (filter quote_free
                                 (matched_pairs sources targets tx sources))),
             [] @ extra)"
    by blast
  then have "\<exists>warns. glossary_loop g source_language tx sources (10, [], []) =
        Inr (10 - int (length (take 10 (filter quote_free
                                 (matched_pairs sources targets tx sources)))),
             render_pairs (take 10 (filter quote_free
                                 (matched_pairs sources targets tx sources))),
             warns)"
    by simp
  then show ?thesis
    unfolding Let_def matched_pairs_plain [OF assms(3)] quote_free_plain render_pairs_plain
    by (simp add: min.commute)
qed

lemma example_columns:
  "frame_column (glossary_dataframe example_glossary) (upper ''EN'') = Inr example_sources"
  "frame_column (glossary_dataframe example_glossary) (upper (glossary_target_language example_glossary))
     = Inr example_targets"
  by (simp_all add: frame_column_def example_glossary_def upper_def upper_char_def)

lemma example_lengths: "length example_sources \<le> length example_targets"
  by (simp add: example_sources_def example_targets_def)

lemma example_matched:
  "map (\<lambda>w. (w, snd (hd (filter (\<lambda>(s, t). s = w) (zip example_sources example_targets)))))
     (filter (\<lambda>w. \<exists>pre post. ''abcdefghijklmn'' = pre @ w @ post) example_sources)
   = [(''a'', [CHR 0x22, CHR ''A'', CHR 0x22]), (''b'', ''B''), (''c'', ''C''),
      (''d'', [CHR 0x22, CHR ''D'', CHR 0x22]), (''e'', ''E''), (''f'', ''F''), (''g'', ''G''),
      (''h'', ''H''), (''i'', ''I''), (''j'', ''J''), (''k'', ''K''), (''l'', ''L''),
      (''m'', ''M''), (''n'', ''N'')]"
  unfolding str_in_iff [symmetric]
  by (simp add: example_sources_def example_targets_def)

theorem quoted_entries_keep_budget_witness:
  "\<exists>warns. glossary_loop example_glossary ''EN'' ''abcdefghijklmn'' example_sources (10, [], [])
     = Inr (0,
            concat (map (\<lambda>(w, t). w @ [CHR 0x09] @ t @ [CHR 0x0A])
              [(''b'', ''B''), (''c'', ''C''), (''e'', ''E''), (''f'', ''F''), (''g'', ''G''),
               (''h'', ''H''), (''i'', ''I''), (''j'', ''J''), (''k'', ''K''), (''l'', ''L'')]),
            warns)"
  using quoted_entries_keep_budget [OF example_columns example_lengths, of "''abcdefghijklmn''"]
  unfolding Let_def example_matched
  by simp

text \<open>
  Claim C6. For a glossary of the languages of the call, whose frame has both columns
  (no column shorter than the source column), and for every text, \<open>_translate\<close> builds
  its termbase without raising. The termbase holds at most 10 pairs \<open>source TAB target\<close>,
  each a matched row, one to a line; no pair and no character of the termbase is a
  quote; and for every matched row with a quote in its word or in its target there is a
  warning (that of the quotes while the budget lasts, that of the limit after it).
\<close>

theorem termbase_capped_without_quotes:
  assumes "str_in (upper source_language) (glossary_source_language g)"
    and "str_in (upper destination_language) (glossary_target_language g)"
    and "frame_column (glossary_dataframe g) (upper source_language) = Inr sources"
    and "frame_column (glossary_dataframe g) (upper (glossary_target_language g)) = Inr targets"
    and "length sources \<le> length targets"
  shows "let matched = map (\<lambda>w. (w, snd (hd (filter (\<lambda>(s, t). s = w) (zip sources targets)))))
                         (filter (\<lambda>w. \<exists>pre post. tx = pre @ w @ post) sources)
         in \<exists>pairs warns.
              build_termbase tx destination_language source_language (Glossary g)
                = Inr (butlast (concat (map (\<lambda>(w, t). w @ [CHR 0x09] @ t @ [CHR 0x0A]) pairs)),
                       warns)
            \<and> length pairs \<le> 10
            \<and> set pairs \<subseteq> set matched
            \<and> (\<forall>(w, t) \<in> set pairs. CHR 0x22 \<notin> set w \<and> CHR 0x22 \<notin> set t)
            \<and> CHR 0x22 \<notin> set (butlast (concat (map (\<lambda>(w, t). w @ [CHR 0x09] @ t @ [CHR 0x0A]) pairs)))
            \<and> length (filter (\<lambda>(w, t). CHR 0x22 \<in> set w \<or> CHR 0x22 \<in> set t) matched)
                \<le> length warns"
proof -
  let ?M = "matched_pairs sources targets tx sources"
  let ?E = "take 10 (filter quote_free ?M)"
  from build_termbase_exact [OF assms, of tx]
  obtain warns where b: "build_termbase tx destination_language source_language (Glossary g)
             = Inr (butlast (render_pairs ?E), warns)"
    and w: "length (filter (\<lambda>p. \<not> quote_free p) ?M) \<le> length warns"
    by blast
  have qf: "\<forall>p \<in> set ?E. quote_free p"
    using in_set_takeD by fastforce
  have plain: "quote_free p \<Longrightarrow> (case p of (w, t) \<Rightarrow> CHR 0x22 \<notin> set w \<and> CHR 0x22 \<notin> set t)"
    for p
    by (cases p) (simp add: quote_free_def QUOTE_def)
  have q1: "\<forall>(w, t) \<in> set ?E. CHR 0x22 \<notin> set w \<and> CHR 0x22 \<notin> set t"
  proof
    fix p
    assume "p \<in> set ?E"
    with qf have "quote_free p" by (rule bspec)
    then show "case p of (w, t) \<Rightarrow> CHR 0x22 \<notin> set w \<and> CHR 0x22 \<notin> set t"
      by (rule plain)
  qed
  have "QUOTE \<notin> set (render_pairs ?E)"
    using qf by (rule quote_notin_render)
  then have q2: "CHR 0x22 \<notin> set (butlast (render_pairs ?E))"
    unfolding QUOTE_def using in_set_butlastD by fastforce
  have "set ?E \<subseteq> set (filter quote_free ?M)"
    by (rule set_take_subset)
  then have sub: "set ?E \<subseteq> set ?M"
    by auto
  have le: "length ?E \<le> 10"
    by simp
  have "\<exists>pairs warns.
              build_termbase tx destination_language source_language (Glossary g)
                = Inr (butlast (render_pairs pairs), warns)
            \<and> length pairs \<le> 10
            \<and> set pairs \<subseteq> set ?M
            \<and> (\<forall>(w, t) \<in> set pairs. CHR 0x22 \<notin> set w \<and> CHR 0x22 \<notin> set t)
            \<and> CHR 0x22 \<notin> set (butlast (render_pairs pairs))
            \<and> length (filter (\<lambda>(w, t). CHR 0x22 \<in> set w \<or> CHR 0x22 \<in> set t) ?M)
                \<le> length warns"
  proof (intro exI conjI)
    show "build_termbase tx destination_language source_language (Glossary g)
             = Inr (butlast (render_pairs ?E), warns)" by (rule b)
    show "length ?E \<le> 10" by (rule le)
    show "set ?E \<subseteq> set ?M" by (rule sub)
    show "\<forall>(w, t) \<in> set ?E. CHR 0x22 \<notin> set w \<and> CHR 0x22 \<notin> set t" by (rule q1)
    show "CHR 0x22 \<notin> set (butlast (render_pairs ?E))" by (rule q2)
    show "length (filter (\<lambda>(w, t). CHR 0x22 \<in> set w \<or> CHR 0x22 \<in> set t) ?M) \<le> length warns"
      using w unfolding quoted_filter_plain .
  qed
  then show ?thesis
    unfolding Let_def matched_pairs_plain [OF assms(5)] render_pairs_plain .
qed

theorem termbase_capped_without_quotes_witness:
  "\<exists>pairs warns.
     build_termbase ''abcdefghijklmn'' ''FR'' ''EN'' (Glossary example_glossary)
       = Inr (butlast (concat (map (\<lambda>(w, t). w @ [CHR 0x09] @ t @ [CHR 0x0A]) pairs)), warns)
     \<and> length pairs \<le> 10
     \<and> (\<forall>(w, t) \<in> set pairs. CHR 0x22 \<notin> set w \<and> CHR 0x22 \<notin> set t)
     \<and> 2 \<le> length warns"
proof -
  have v: "str_in (upper ''EN'') (glossary_source_language example_glossary)"
          "str_in (upper ''FR'') (glossary_target_language example_glossary)"
    by (simp_all add: example_glossary_def upper_def upper_char_def)
  from termbase_capped_without_quotes [OF v example_columns example_lengths, of "''abcdefghijklmn''"]
  obtain pairs warns where
    b: "build_termbase ''abcdefghijklmn'' ''FR'' ''EN'' (Glossary example_glossary)
       = Inr (butlast (concat (map (\<lambda>(w, t). w @ [CHR 0x09] @ t @ [CHR 0x0A]) pairs)), warns)"
    and l: "length pairs \<le> 10"
    and q: "\<forall>(w, t) \<in> set pairs. CHR 0x22 \<notin> set w \<and> CHR 0x22 \<notin> set t"
    and w: "length (filter (\<lambda>(w, t). CHR 0x22 \<in> set w \<or> CHR 0x22 \<in> set t)
              [(''a'', [CHR 0x22, CHR ''A'', CHR 0x22]), (''b'', ''B''), (''c'', ''C''),
               (''d'', [CHR 0x22, CHR ''D'', CHR 0x22]), (''e'', ''E''), (''f'', ''F''), (''g'', ''G''),
               (''h'', ''H''), (''i'', ''I''), (''j'', ''J''), (''k'', ''K''), (''l'', ''L''),
               (''m'', ''M''), (''n'', ''N'')]) \<le> length warns"
    unfolding Let_def example_matched by (elim exE conjE)
  from w have "2 \<le> length warns"
    by simp
  with b l q show ?thesis
    by (intro exI [of _ pairs] exI [of _ warns] conjI)
qed


end
